theory Spec2Isabelle
  imports Complex_Main "HOL-Library.Word" "HOL-Library.Multiset"
begin

section \<open>Numeric model\<close>

text \<open>
  The C++ type \<open>float\<close> is modelled by \<^typ>\<open>real\<close>: arithmetic is exact, there is no
  rounding, no infinity and no NaN. The one place where the code relies on infinities, the
  ray-box intersector, computes on the type \<open>ieee\<close> below. \<open>int\<close> is modelled by \<^typ>\<open>int\<close> (signed overflow is
  undefined behaviour in C++, so only overflow-free executions are covered), \<open>size_t\<close>
  by a natural number below \<open>2 ^ 64\<close>, and \<open>uint16_t\<close> by \<^typ>\<open>16 word\<close>.
\<close>

text \<open>\<open>size_t(i)\<close> for an \<open>int\<close> expression \<open>i\<close>: conversion modulo \<open>2 ^ 64\<close>.\<close>

definition size_t_of_int :: "int \<Rightarrow> nat" where
  "size_t_of_int i = nat (i mod 2 ^ 64)"

text \<open>\<open>static_cast<int>(f)\<close> for a \<open>float\<close>: truncation towards zero.\<close>

definition int_of_float :: "real \<Rightarrow> int" where
  "int_of_float f = (if 0 \<le> f then \<lfloor>f\<rfloor> else \<lceil>f\<rceil>)"

text \<open>
  \<open>static_cast<size_t>(f)\<close> for a \<open>float\<close>: truncation towards zero; a negative value
  (undefined behaviour in C++) is taken modulo \<open>2 ^ 64\<close>, as the usual 64-bit conversion does.
\<close>

definition size_t_of_float :: "real \<Rightarrow> nat" where
  "size_t_of_float f = size_t_of_int (int_of_float f)"

section \<open>IEEE special values\<close>









section \<open>The glm vector types\<close>

datatype ivec2 = IVec2 (ix2: int) (iy2: int)

datatype ivec3 = IVec3 (ix: int) (iy: int) (iz: int)

datatype vec2 = Vec2 (vx2: real) (vy2: real)

datatype vec3 = Vec3 (vx: real) (vy: real) (vz: real)

datatype vec4 = Vec4 (cr: real) (cg: real) (cb: real) (cw: real)

definition vec3_of_ivec3 :: "ivec3 \<Rightarrow> vec3" where
  "vec3_of_ivec3 d = Vec3 (of_int (ix d)) (of_int (iy d)) (of_int (iz d))"

definition ivec3_sub_scalar :: "ivec3 \<Rightarrow> int \<Rightarrow> ivec3" where
  "ivec3_sub_scalar d k = IVec3 (ix d - k) (iy d - k) (iz d - k)"

definition vec3_add_scalar :: "vec3 \<Rightarrow> real \<Rightarrow> vec3" where
  "vec3_add_scalar v k = Vec3 (vx v + k) (vy v + k) (vz v + k)"

definition vadd :: "vec3 \<Rightarrow> vec3 \<Rightarrow> vec3" where
  "vadd u v = Vec3 (vx u + vx v) (vy u + vy v) (vz u + vz v)"

definition vsub :: "vec3 \<Rightarrow> vec3 \<Rightarrow> vec3" where
  "vsub u v = Vec3 (vx u - vx v) (vy u - vy v) (vz u - vz v)"

definition smul :: "real \<Rightarrow> vec3 \<Rightarrow> vec3" where
  "smul k v = Vec3 (k * vx v) (k * vy v) (k * vz v)"

definition vneg :: "vec3 \<Rightarrow> vec3" where
  "vneg v = Vec3 (- vx v) (- vy v) (- vz v)"

definition dot :: "vec3 \<Rightarrow> vec3 \<Rightarrow> real" where
  "dot u v = vx u * vx v + vy u * vy v + vz u * vz v"

definition vlength :: "vec3 \<Rightarrow> real" where
  "vlength v = sqrt (dot v v)"


text \<open>\<open>glm::any(glm::lessThan(u, v))\<close> and \<open>glm::any(glm::greaterThanEqual(u, v))\<close>.\<close>

definition any_lessThan :: "vec3 \<Rightarrow> vec3 \<Rightarrow> bool" where
  "any_lessThan u v \<longleftrightarrow> vx u < vx v \<or> vy u < vy v \<or> vz u < vz v"

definition any_greaterThanEqual :: "vec3 \<Rightarrow> vec3 \<Rightarrow> bool" where
  "any_greaterThanEqual u v \<longleftrightarrow> vx u \<ge> vx v \<or> vy u \<ge> vy v \<or> vz u \<ge> vz v"

section \<open>Volume (volume.cpp)\<close>

datatype InterpolationMode = NearestNeighbour | Linear | Cubic

text \<open>
  The members of \<open>Volume\<close> that the samplers read. \<open>Volume_a\<close> is the class constant
  \<open>Volume::a\<close> of the cubic kernel; its declaration is in the header, so its value is a
  parameter here.
\<close>

record Volume =
  m_dim :: ivec3
  m_data :: "16 word list"
  m_maximum :: real
  interpolationMode :: InterpolationMode
  Volume_a :: real

definition maximum :: "Volume \<Rightarrow> real" where
  "maximum v = m_maximum v"


text \<open>
  \<open>Volume::getVoxel\<close>. The only check is on the linear index; \<open>i < 0\<close> is a comparison of
  an unsigned value and never holds.
\<close>

definition getVoxel :: "Volume \<Rightarrow> int \<Rightarrow> int \<Rightarrow> int \<Rightarrow> real" where
  "getVoxel v x y z =
     (let i = size_t_of_int (x + ix (m_dim v) * (y + iy (m_dim v) * z))
      in if i \<ge> length (m_data v) \<or> i < 0 then 0
         else real (unat (m_data v ! i)))"

definition roundToPositiveInt :: "real \<Rightarrow> int" where
  "roundToPositiveInt f = int_of_float (f + 0.5)"

definition getVoxelNN :: "Volume \<Rightarrow> vec3 \<Rightarrow> real" where
  "getVoxelNN v coord =
     (if any_lessThan (vec3_add_scalar coord 0.5) (Vec3 0 0 0)
         \<or> any_greaterThanEqual (vec3_add_scalar coord 0.5) (vec3_of_ivec3 (m_dim v))
      then 0
      else getVoxel v (roundToPositiveInt (vx coord)) (roundToPositiveInt (vy coord))
             (roundToPositiveInt (vz coord)))"

definition linearInterpolate :: "real \<Rightarrow> real \<Rightarrow> real \<Rightarrow> real" where
  "linearInterpolate g0 g1 factor = (1 - factor) * g0 + factor * g1"

definition getVoxelLinearInterpolate :: "Volume \<Rightarrow> vec3 \<Rightarrow> real" where
  "getVoxelLinearInterpolate v coord =
     (if any_lessThan coord (Vec3 0 0 0)
         \<or> any_greaterThanEqual coord (vec3_of_ivec3 (ivec3_sub_scalar (m_dim v) 1))
      then 0
      else
        let x = int_of_float (vx coord);
            y = int_of_float (vy coord);
            z = int_of_float (vz coord);
            fac_x = vx coord - of_int x;
            fac_y = vy coord - of_int y;
            fac_z = vz coord - of_int z;
            t0 = linearInterpolate (getVoxel v x y z) (getVoxel v (x + 1) y z) fac_x;
            t1 = linearInterpolate (getVoxel v x (y + 1) z) (getVoxel v (x + 1) (y + 1) z) fac_x;
            t2 = linearInterpolate (getVoxel v x y (z + 1)) (getVoxel v (x + 1) y (z + 1)) fac_x;
            t3 = linearInterpolate (getVoxel v x (y + 1) (z + 1))
                   (getVoxel v (x + 1) (y + 1) (z + 1)) fac_x;
            t4 = linearInterpolate t0 t1 fac_y;
            t5 = linearInterpolate t2 t3 fac_y;
            t6 = linearInterpolate t4 t5 fac_z
        in t6)"

text \<open>
  \<open>Volume::weight\<close>, the kernel \<open>h(x)\<close>, with \<open>a\<close> the value of \<open>Volume::a\<close>. The call
  \<open>abs(x)\<close> is read as the floating-point absolute value.
\<close>

definition weight :: "real \<Rightarrow> real \<Rightarrow> real" where
  "weight a x0 =
     (let x = \<bar>x0\<bar>
      in if x < 1 then (a + 2) * x ^ 3 - (a + 3) * x ^ 2 + 1
         else if x < 2 then a * x ^ 3 - 5 * a * x ^ 2 + 8 * a * x - 4 * a
         else 0)"

definition cubicInterpolate :: "real \<Rightarrow> real \<Rightarrow> real \<Rightarrow> real \<Rightarrow> real \<Rightarrow> real \<Rightarrow> real" where
  "cubicInterpolate a g0 g1 g2 g3 factor =
     weight a (1 + factor) * g0 + weight a factor * g1
       + weight a (1 - factor) * g2 + weight a (2 - factor) * g3"

text \<open>
  \<open>Volume::bicubicInterpolateXY\<close>. The loop over \<open>i = -1, 0, 1, 2\<close> fills \<open>values[i + 1]\<close>;
  it is written out as the function \<open>row\<close> of \<open>i\<close>.
\<close>

definition bicubicInterpolateXY :: "Volume \<Rightarrow> vec2 \<Rightarrow> int \<Rightarrow> real" where
  "bicubicInterpolateXY v xyCoord z =
     (let offset = 1;
          x = int_of_float (vx2 xyCoord);
          y = int_of_float (vy2 xyCoord);
          fac_x = vx2 xyCoord - of_int x;
          fac_y = vy2 xyCoord - of_int y;
          row = (\<lambda>i. let x' = int_of_float (vx2 xyCoord + of_int i)
                      in cubicInterpolate (Volume_a v)
                           (getVoxel v x' (y - offset) z)
                           (getVoxel v x' (y - offset + 1) z)
                           (getVoxel v x' (y - offset + 2) z)
                           (getVoxel v x' (y - offset + 3) z)
                           fac_y)
      in cubicInterpolate (Volume_a v) (row (0 - offset)) (row (1 - offset)) (row (2 - offset))
           (row (3 - offset)) fac_x)"

definition getVoxelTriCubicInterpolate :: "Volume \<Rightarrow> vec3 \<Rightarrow> real" where
  "getVoxelTriCubicInterpolate v coord =
     (if any_lessThan coord (Vec3 0 0 0)
         \<or> any_greaterThanEqual coord (vec3_of_ivec3 (ivec3_sub_scalar (m_dim v) 1))
      then 0
      else
        let offset = 1;
            z = int_of_float (vz coord);
            fac_z = vz coord - of_int z;
            slice = (\<lambda>i. let z' = int_of_float (vz coord + of_int i)
                          in bicubicInterpolateXY v (Vec2 (vx coord) (vy coord)) z');
            value = cubicInterpolate (Volume_a v) (slice (0 - offset)) (slice (1 - offset))
                      (slice (2 - offset)) (slice (3 - offset)) fac_z
        in if value < 0 then 0 else value)"

text \<open>
  \<open>Volume::getVoxelInterpolate\<close>. The \<open>default\<close> branch throws; the enumeration has the
  three modes above, so the branch has no case here.
\<close>

definition getVoxelInterpolate :: "Volume \<Rightarrow> vec3 \<Rightarrow> real" where
  "getVoxelInterpolate v coord =
     (case interpolationMode v of
        NearestNeighbour \<Rightarrow> getVoxelNN v coord
      | Linear \<Rightarrow> getVoxelLinearInterpolate v coord
      | Cubic \<Rightarrow> getVoxelTriCubicInterpolate v coord)"

section \<open>Renderer (renderer.cpp)\<close>

text \<open>
  The types of the headers that the renderer uses: a gradient voxel, a ray, the bounds of
  the volume (the array \<open>lowerUpper\<close> of the two corners, indexed by a \<open>bool\<close>), the render
  mode and the render configuration.
\<close>

record GradientVoxel =
  dir :: vec3
  magnitude :: real

record Ray =
  origin :: vec3
  direction :: vec3
  tmin :: real
  tmax :: real



datatype RenderMode =
  RenderSlicer | RenderMIP | RenderIso | RenderComposite | RenderTF2D | RenderTF2DV2

record RenderConfig =
  renderResolution :: ivec2
  renderMode :: RenderMode
  isoValue :: real
  volumeShading :: bool
  tfColorMap :: "vec4 list"
  tfColorMapIndexStart :: real
  tfColorMapIndexRange :: real
  TF2DIntensity :: real
  TF2DRadius :: real
  TF2DColor :: vec4
  TF2DV2Intensity_0 :: real
  TF2DV2Radius_0 :: real
  TF2DV2Color_0 :: vec4
  TF2DV2Intensity_1 :: real
  TF2DV2Radius_1 :: real
  TF2DV2Color_1 :: vec4

text \<open>
  The camera and the gradient volume are collaborators whose code is outside the two source
  files: the camera is its position, its forward vector and its ray generator, the gradient
  volume is its lookup \<open>getGradientVoxel\<close>.
\<close>

record RayTraceCamera =
  position :: vec3
  forward :: vec3
  generateRay :: "vec2 \<Rightarrow> Ray"

text \<open>
  The members of \<open>Renderer\<close> that a render pass reads. The one member it writes,
  \<open>m_frameBuffer\<close>, is passed as explicit state of type \<open>vec4 list\<close>.
\<close>

record Renderer =
  m_pVolume :: Volume
  m_pGradientVolume :: "vec3 \<Rightarrow> GradientVoxel"
  m_pCamera :: RayTraceCamera
  m_config :: RenderConfig

definition vec3_of_vec4 :: "vec4 \<Rightarrow> vec3" where
  "vec3_of_vec4 c = Vec3 (cr c) (cg c) (cb c)"

definition vec4_of_vec3 :: "vec3 \<Rightarrow> real \<Rightarrow> vec4" where
  "vec4_of_vec3 c w = Vec4 (vx c) (vy c) (vz c) w"

subsection \<open>Frame buffer\<close>

text \<open>
  \<open>Renderer::resizeImage\<close>: the product of the two \<open>size_t\<close> values wraps modulo \<open>2 ^ 64\<close>;
  \<open>resize\<close> keeps the pixels that fit and fills the new ones.
\<close>

definition resizeImage :: "ivec2 \<Rightarrow> vec4 list \<Rightarrow> vec4 list" where
  "resizeImage resolution fb =
     (let n = (size_t_of_int (ix2 resolution) * size_t_of_int (iy2 resolution)) mod 2 ^ 64
      in take n fb @ replicate (n - length fb) (Vec4 0 0 0 0))"



subsection \<open>Ray-box intersection\<close>



subsection \<open>Transfer functions and shading\<close>

text \<open>
  \<open>Renderer::getTFValue\<close>. \<open>size() - 1\<close> is an unsigned subtraction; the lookup is inside
  the table when the table is not empty.
\<close>

definition getTFValue :: "Renderer \<Rightarrow> real \<Rightarrow> vec4" where
  "getTFValue r val =
     (let cmap = tfColorMap (m_config r);
          range01 = (val - tfColorMapIndexStart (m_config r)) / tfColorMapIndexRange (m_config r);
          i = min (size_t_of_float (range01 * real (length cmap)))
                (size_t_of_int (int (length cmap) - 1))
      in cmap ! i)"

text \<open>
  \<open>Renderer::computePhongShading\<close>, with \<open>acos\<close> as \<^const>\<open>arccos\<close> (whose argument is
  meant to be in \<open>[-1, 1]\<close>) and \<open>pow(cos(phi), n)\<close> as a power.
\<close>

definition computePhongShading :: "vec3 \<Rightarrow> GradientVoxel \<Rightarrow> vec3 \<Rightarrow> vec3 \<Rightarrow> vec3" where
  "computePhongShading color gradient L V =
     (let ka = 0.1;
          kd = 0.7;
          ks = 0.2;
          n = (100 :: nat);
          eps = 0.0001;
          theta = arccos (dot (dir gradient) (vneg L) / (magnitude gradient * vlength L + eps));
          phi = arccos (dot (dir gradient) V / (magnitude gradient * vlength V + eps)) - theta
      in smul (ka + kd * cos theta + ks * (cos phi) ^ n) color)"

definition inTriangle :: "real \<Rightarrow> real \<Rightarrow> real \<Rightarrow> real \<Rightarrow> real \<Rightarrow> bool" where
  "inTriangle leftIntensity midIntensity rightIntensity intensity magn =
     (if intensity \<le> leftIntensity \<or> intensity \<ge> rightIntensity \<or> magn \<le> 0 then False
      else if intensity = midIntensity then True
      else if intensity < midIntensity
        then magn > 255 * ((midIntensity - intensity) / (midIntensity - leftIntensity))
        else magn > 255 * ((intensity - midIntensity) / (rightIntensity - midIntensity)))"

text \<open>\<open>linearOpacity\<close>; \<open>abs\<close> is read as the floating-point absolute value.\<close>

definition linearOpacity :: "real \<Rightarrow> real \<Rightarrow> real \<Rightarrow> real \<Rightarrow> real" where
  "linearOpacity intensityCenter radius intensity magn =
     (let horizontalWidth = radius * (magn / 255)
      in 1 - \<bar>intensityCenter - intensity\<bar> / horizontalWidth)"

definition getTF2DOpacity :: "Renderer \<Rightarrow> real \<Rightarrow> real \<Rightarrow> real" where
  "getTF2DOpacity r intensity gradientMagnitude =
     (if inTriangle (TF2DIntensity (m_config r) - TF2DRadius (m_config r))
           (TF2DIntensity (m_config r))
           (TF2DIntensity (m_config r) + TF2DRadius (m_config r))
           intensity gradientMagnitude
      then linearOpacity (TF2DIntensity (m_config r)) (TF2DRadius (m_config r)) intensity
             gradientMagnitude
      else 0)"

definition getTF2DV2Opacity :: "Renderer \<Rightarrow> real \<Rightarrow> real \<Rightarrow> real" where
  "getTF2DV2Opacity r intensity gradientMagnitude =
     (let inTriangle_0 = inTriangle
            (TF2DV2Intensity_0 (m_config r) - TF2DV2Radius_0 (m_config r))
            (TF2DV2Intensity_0 (m_config r))
            (TF2DV2Intensity_0 (m_config r) + TF2DV2Radius_0 (m_config r))
            intensity gradientMagnitude;
          inTriangle_1 = inTriangle
            (TF2DV2Intensity_1 (m_config r) - TF2DV2Radius_1 (m_config r))
            (TF2DV2Intensity_1 (m_config r))
            (TF2DV2Intensity_1 (m_config r) + TF2DV2Radius_1 (m_config r))
            intensity gradientMagnitude
      in if inTriangle_0
           then linearOpacity (TF2DV2Intensity_0 (m_config r)) (TF2DV2Radius_0 (m_config r))
                  intensity gradientMagnitude
         else if inTriangle_1
           then linearOpacity (TF2DV2Intensity_1 (m_config r)) (TF2DV2Radius_1 (m_config r))
                  intensity gradientMagnitude
         else if inTriangle_0 \<and> inTriangle_1
           then max (linearOpacity (TF2DV2Intensity_0 (m_config r)) (TF2DV2Radius_0 (m_config r))
                       intensity gradientMagnitude)
                  (linearOpacity (TF2DV2Intensity_1 (m_config r)) (TF2DV2Radius_1 (m_config r))
                       intensity gradientMagnitude)
         else 0)"

definition getTF2DV2Color :: "Renderer \<Rightarrow> real \<Rightarrow> real \<Rightarrow> vec4" where
  "getTF2DV2Color r intensity gradientMagnitude =
     (let inTriangle_0 = inTriangle
            (TF2DV2Intensity_0 (m_config r) - TF2DV2Radius_0 (m_config r))
            (TF2DV2Intensity_0 (m_config r))
            (TF2DV2Intensity_0 (m_config r) + TF2DV2Radius_0 (m_config r))
            intensity gradientMagnitude;
          inTriangle_1 = inTriangle
            (TF2DV2Intensity_1 (m_config r) - TF2DV2Radius_1 (m_config r))
            (TF2DV2Intensity_1 (m_config r))
            (TF2DV2Intensity_1 (m_config r) + TF2DV2Radius_1 (m_config r))
            intensity gradientMagnitude
      in if inTriangle_0 then TF2DV2Color_0 (m_config r)
         else if inTriangle_1 then TF2DV2Color_1 (m_config r)
         else if inTriangle_0 \<and> inTriangle_1
           then
             let opacity_1 = linearOpacity (TF2DV2Intensity_0 (m_config r))
                   (TF2DV2Radius_0 (m_config r)) intensity gradientMagnitude;
                 opacity_2 = linearOpacity (TF2DV2Intensity_1 (m_config r))
                   (TF2DV2Radius_1 (m_config r)) intensity gradientMagnitude
             in if opacity_1 > opacity_2 then TF2DV2Color_0 (m_config r)
                else TF2DV2Color_1 (m_config r)
         else Vec4 0 0 0 0)"

subsection \<open>Pixel algorithms\<close>


partial_function (option) traceRayMIP_loop ::
  "Renderer \<Rightarrow> Ray \<Rightarrow> real \<Rightarrow> vec3 \<Rightarrow> real \<Rightarrow> vec3 \<Rightarrow> real \<Rightarrow> real option" where
  "traceRayMIP_loop r ray sampleStep increment t samplePos maxVal =
     (if t \<le> tmax ray
      then
        let val = getVoxelInterpolate (m_pVolume r) samplePos
        in traceRayMIP_loop r ray sampleStep increment (t + sampleStep)
             (vadd samplePos increment) (max val maxVal)
      else Some maxVal)"

declare traceRayMIP_loop.simps [code]

definition traceRayMIP :: "Renderer \<Rightarrow> Ray \<Rightarrow> real \<Rightarrow> vec4 option" where
  "traceRayMIP r ray sampleStep =
     (let samplePos = vadd (origin ray) (smul (tmin ray) (direction ray));
          increment = smul sampleStep (direction ray)
      in case traceRayMIP_loop r ray sampleStep increment (tmin ray) samplePos 0 of
           None \<Rightarrow> None
         | Some maxVal \<Rightarrow>
             Some (Vec4 (maxVal / maximum (m_pVolume r)) (maxVal / maximum (m_pVolume r))
                     (maxVal / maximum (m_pVolume r)) 1))"

text \<open>
  \<open>Renderer::bisectionAccuracy\<close>: the loop counts \<open>maxIterations\<close> down from \<open>500\<close>.
\<close>

function bisectionAccuracy_loop ::
  "Renderer \<Rightarrow> Ray \<Rightarrow> real \<Rightarrow> int \<Rightarrow> real \<Rightarrow> real \<Rightarrow> real \<Rightarrow> real" where
  "bisectionAccuracy_loop r ray isoVal maxIterations t0 t1 tMiddle =
     (if maxIterations > 0
      then
        let minDifference = 0.0001;
            tMiddle' = (t0 + t1) / 2;
            middle = vadd (origin ray) (smul tMiddle' (direction ray));
            voxelValue = getVoxelInterpolate (m_pVolume r) middle
        in if \<bar>voxelValue - isoVal\<bar> < minDifference then tMiddle'
           else if voxelValue < isoVal
             then bisectionAccuracy_loop r ray isoVal (maxIterations - 1) tMiddle' t1 tMiddle'
             else bisectionAccuracy_loop r ray isoVal (maxIterations - 1) t0 tMiddle' tMiddle'
      else tMiddle)"
  by pat_completeness auto
termination
  by (relation "measure (\<lambda>(r, ray, isoVal, maxIterations, t0, t1, tMiddle). nat maxIterations)")
    auto

definition bisectionAccuracy :: "Renderer \<Rightarrow> Ray \<Rightarrow> real \<Rightarrow> real \<Rightarrow> real \<Rightarrow> real" where
  "bisectionAccuracy r ray t0 t1 isoVal =
     bisectionAccuracy_loop r ray isoVal 500 t0 t1 ((t0 + t1) / 2)"






partial_function (option) backToFrontComposite_loop ::
  "Renderer \<Rightarrow> Ray \<Rightarrow> real \<Rightarrow> vec3 \<Rightarrow> real \<Rightarrow> vec3 \<Rightarrow> vec3 \<Rightarrow> vec3 option" where
  "backToFrontComposite_loop r ray sampleStep increment t samplePos color =
     (if t \<ge> tmin ray
      then
        let tf_value = getTFValue r (getVoxelInterpolate (m_pVolume r) samplePos);
            current_color =
              (if volumeShading (m_config r)
               then computePhongShading (vec3_of_vec4 tf_value) (m_pGradientVolume r samplePos)
                      (position (m_pCamera r)) (direction ray)
               else vec3_of_vec4 tf_value)
        in backToFrontComposite_loop r ray sampleStep increment (t - sampleStep)
             (vsub samplePos increment)
             (vadd (smul (cw tf_value) current_color) (smul (1 - cw tf_value) color))
      else Some color)"

declare backToFrontComposite_loop.simps [code]

definition backToFrontComposite :: "Renderer \<Rightarrow> Ray \<Rightarrow> real \<Rightarrow> vec4 option" where
  "backToFrontComposite r ray sampleStep =
     (let samplePos = vadd (origin ray) (smul (tmax ray) (direction ray));
          increment = smul sampleStep (direction ray)
      in case backToFrontComposite_loop r ray sampleStep increment (tmax ray) samplePos
                (Vec3 0 0 0) of
           None \<Rightarrow> None
         | Some color \<Rightarrow> Some (vec4_of_vec3 color 1))"


partial_function (option) traceRayTF2D_loop ::
  "Renderer \<Rightarrow> Ray \<Rightarrow> real \<Rightarrow> vec3 \<Rightarrow> real \<Rightarrow> vec3 \<Rightarrow> vec3 \<Rightarrow> vec3 option" where
  "traceRayTF2D_loop r ray sampleStep increment t samplePos color =
     (if t \<ge> tmin ray
      then
        let intensity = getVoxelInterpolate (m_pVolume r) samplePos;
            gradient = m_pGradientVolume r samplePos;
            opacity = getTF2DOpacity r intensity (magnitude gradient) * cw (TF2DColor (m_config r));
            color' =
              (if volumeShading (m_config r)
               then computePhongShading (vec3_of_vec4 (TF2DColor (m_config r))) gradient
                      (position (m_pCamera r)) (direction ray)
               else vec3_of_vec4 (TF2DColor (m_config r)))
        in traceRayTF2D_loop r ray sampleStep increment (t - sampleStep)
             (vsub samplePos increment)
             (vadd (smul opacity color') (smul (1 - opacity) color))
      else Some color)"

declare traceRayTF2D_loop.simps [code]

definition traceRayTF2D :: "Renderer \<Rightarrow> Ray \<Rightarrow> real \<Rightarrow> vec4 option" where
  "traceRayTF2D r ray sampleStep =
     (let samplePos = vadd (origin ray) (smul (tmax ray) (direction ray));
          increment = smul sampleStep (direction ray)
      in case traceRayTF2D_loop r ray sampleStep increment (tmax ray) samplePos (Vec3 0 0 0) of
           None \<Rightarrow> None
         | Some color \<Rightarrow> Some (vec4_of_vec3 color 1))"

partial_function (option) traceRayTF2DV2_loop ::
  "Renderer \<Rightarrow> Ray \<Rightarrow> real \<Rightarrow> vec3 \<Rightarrow> real \<Rightarrow> vec3 \<Rightarrow> vec3 \<Rightarrow> vec3 option" where
  "traceRayTF2DV2_loop r ray sampleStep increment t samplePos color =
     (if t \<ge> tmin ray
      then
        let intensity = getVoxelInterpolate (m_pVolume r) samplePos;
            gradient = m_pGradientVolume r samplePos;
            opacity0 = getTF2DV2Opacity r intensity (magnitude gradient);
            color' = getTF2DV2Color r intensity (magnitude gradient);
            opacity = opacity0 * cw color'
        in traceRayTF2DV2_loop r ray sampleStep increment (t - sampleStep)
             (vsub samplePos increment)
             (vadd (smul opacity (vec3_of_vec4 color')) (smul (1 - opacity) color))
      else Some color)"

declare traceRayTF2DV2_loop.simps [code]

definition traceRayTF2DV2 :: "Renderer \<Rightarrow> Ray \<Rightarrow> real \<Rightarrow> vec4 option" where
  "traceRayTF2DV2 r ray sampleStep =
     (let samplePos = vadd (origin ray) (smul (tmax ray) (direction ray));
          increment = smul sampleStep (direction ray)
      in case traceRayTF2DV2_loop r ray sampleStep increment (tmax ray) samplePos (Vec3 0 0 0) of
           None \<Rightarrow> None
         | Some color \<Rightarrow> Some (vec4_of_vec3 color 1))"

subsection \<open>The render pass\<close>



















section \<open>Specification-level predicates and sample inputs\<close>

text \<open>
  The volume of the scenario of the specification: dimensions \<open>(2,2,2)\<close>, all voxels \<open>0\<close>
  except the voxel at \<open>(1,1,1)\<close>, which is \<open>100\<close>.
\<close>

definition vol222 :: Volume where
  "vol222 = \<lparr> m_dim = IVec3 2 2 2, m_data = [0, 0, 0, 0, 0, 0, 0, 100], m_maximum = 100,
      interpolationMode = Linear, Volume_a = - 1 / 2 \<rparr>"

text \<open>Two further small volumes, used as concrete inputs.\<close>

definition vol221 :: Volume where
  "vol221 = \<lparr> m_dim = IVec3 2 2 1, m_data = [1, 2, 3, 4], m_maximum = 4,
      interpolationMode = NearestNeighbour, Volume_a = - 1 / 2 \<rparr>"

definition vol111 :: Volume where
  "vol111 = \<lparr> m_dim = IVec3 1 1 1, m_data = [100], m_maximum = 100,
      interpolationMode = NearestNeighbour, Volume_a = - 1 / 2 \<rparr>"

text \<open>The row-major linear index of a coordinate: \<open>x\<close> fastest, then \<open>y\<close>, then \<open>z\<close>.\<close>

definition linear_index :: "Volume \<Rightarrow> int \<Rightarrow> int \<Rightarrow> int \<Rightarrow> int" where
  "linear_index v x y z = x + ix (m_dim v) * (y + iy (m_dim v) * z)"

text \<open>The values of a 32-bit \<open>int\<close>.\<close>

definition in_int_range :: "int \<Rightarrow> bool" where
  "in_int_range i \<longleftrightarrow> - (2 ^ 31) \<le> i \<and> i < 2 ^ 31"

text \<open>An integer coordinate inside \<open>[0, dim)\<close> on every axis.\<close>

definition coord_in_bounds :: "Volume \<Rightarrow> int \<Rightarrow> int \<Rightarrow> int \<Rightarrow> bool" where
  "coord_in_bounds v x y z \<longleftrightarrow>
     0 \<le> x \<and> x < ix (m_dim v) \<and> 0 \<le> y \<and> y < iy (m_dim v) \<and> 0 \<le> z \<and> z < iz (m_dim v)"

text \<open>The data array holds exactly one scalar per coordinate.\<close>

definition dense :: "Volume \<Rightarrow> bool" where
  "dense v \<longleftrightarrow> int (length (m_data v)) = ix (m_dim v) * iy (m_dim v) * iz (m_dim v)"

text \<open>
  A sampling position with a component outside \<open>[0, dim)\<close>, and one whose components
  shifted by \<open>0.5\<close> leave \<open>[0, dim)\<close>.
\<close>

definition coord_outside :: "Volume \<Rightarrow> vec3 \<Rightarrow> bool" where
  "coord_outside v c \<longleftrightarrow>
     vx c < 0 \<or> vx c \<ge> of_int (ix (m_dim v)) \<or> vy c < 0 \<or> vy c \<ge> of_int (iy (m_dim v))
     \<or> vz c < 0 \<or> vz c \<ge> of_int (iz (m_dim v))"

definition coord_outside_shifted :: "Volume \<Rightarrow> vec3 \<Rightarrow> bool" where
  "coord_outside_shifted v c \<longleftrightarrow> coord_outside v (vec3_add_scalar c 0.5)"

text \<open>
  An integer coordinate inside \<open>[0, dim - 1)\<close> on every axis, and the sampling position of
  an integer coordinate.
\<close>

definition coord_in_cell_range :: "Volume \<Rightarrow> int \<Rightarrow> int \<Rightarrow> int \<Rightarrow> bool" where
  "coord_in_cell_range v x y z \<longleftrightarrow>
     0 \<le> x \<and> x < ix (m_dim v) - 1 \<and> 0 \<le> y \<and> y < iy (m_dim v) - 1
     \<and> 0 \<le> z \<and> z < iz (m_dim v) - 1"

definition grid_point :: "int \<Rightarrow> int \<Rightarrow> int \<Rightarrow> vec3" where
  "grid_point x y z = Vec3 (of_int x) (of_int y) (of_int z)"













definition ray_miss :: Ray where
  "ray_miss = \<lparr> origin = Vec3 20 5 5, direction = Vec3 1 1 1, tmin = 7, tmax = 3 \<rparr>"




text \<open>A sample configuration, camera, gradient lookup and renderer.\<close>

definition config0 :: RenderConfig where
  "config0 = \<lparr> renderResolution = IVec2 2 2, renderMode = RenderMIP, isoValue = 50,
      volumeShading = False, tfColorMap = [Vec4 1 1 1 1], tfColorMapIndexStart = 0,
      tfColorMapIndexRange = 255, TF2DIntensity = 100, TF2DRadius = 50, TF2DColor = Vec4 1 1 1 1,
      TF2DV2Intensity_0 = 100, TF2DV2Radius_0 = 50, TF2DV2Color_0 = Vec4 1 0 0 1,
      TF2DV2Intensity_1 = 110, TF2DV2Radius_1 = 50, TF2DV2Color_1 = Vec4 0 1 0 1 \<rparr>"

definition camera0 :: RayTraceCamera where
  "camera0 = \<lparr> position = Vec3 1 0 0, forward = Vec3 0 0 1,
      generateRay = (\<lambda>p. \<lparr> origin = Vec3 (vx2 p) (vy2 p) 0, direction = Vec3 1 1 1,
                                tmin = 0, tmax = 0 \<rparr>) \<rparr>"

definition gradient0 :: "vec3 \<Rightarrow> GradientVoxel" where
  "gradient0 p = \<lparr> dir = Vec3 1 0 0, magnitude = 1 \<rparr>"

definition renderer0 :: Renderer where
  "renderer0 = \<lparr> m_pVolume = vol222, m_pGradientVolume = gradient0, m_pCamera = camera0,
      m_config = config0 \<rparr>"

text \<open>
  The two classifiers of variant 2 of the 2D transfer function: membership of a sample in
  the triangle of each, and the tent opacity of each.
\<close>

definition in_classifier_0 :: "Renderer \<Rightarrow> real \<Rightarrow> real \<Rightarrow> bool" where
  "in_classifier_0 r intensity magn \<longleftrightarrow>
     inTriangle (TF2DV2Intensity_0 (m_config r) - TF2DV2Radius_0 (m_config r))
       (TF2DV2Intensity_0 (m_config r))
       (TF2DV2Intensity_0 (m_config r) + TF2DV2Radius_0 (m_config r)) intensity magn"

definition in_classifier_1 :: "Renderer \<Rightarrow> real \<Rightarrow> real \<Rightarrow> bool" where
  "in_classifier_1 r intensity magn \<longleftrightarrow>
     inTriangle (TF2DV2Intensity_1 (m_config r) - TF2DV2Radius_1 (m_config r))
       (TF2DV2Intensity_1 (m_config r))
       (TF2DV2Intensity_1 (m_config r) + TF2DV2Radius_1 (m_config r)) intensity magn"

definition opacity_0 :: "Renderer \<Rightarrow> real \<Rightarrow> real \<Rightarrow> real" where
  "opacity_0 r intensity magn =
     linearOpacity (TF2DV2Intensity_0 (m_config r)) (TF2DV2Radius_0 (m_config r)) intensity magn"

definition opacity_1 :: "Renderer \<Rightarrow> real \<Rightarrow> real \<Rightarrow> real" where
  "opacity_1 r intensity magn =
     linearOpacity (TF2DV2Intensity_1 (m_config r)) (TF2DV2Radius_1 (m_config r)) intensity magn"

text \<open>Membership of a sample in the triangle of the (variant 1) 2D transfer function.\<close>

definition in_classifier :: "Renderer \<Rightarrow> real \<Rightarrow> real \<Rightarrow> bool" where
  "in_classifier r intensity magn \<longleftrightarrow>
     inTriangle (TF2DIntensity (m_config r) - TF2DRadius (m_config r))
       (TF2DIntensity (m_config r))
       (TF2DIntensity (m_config r) + TF2DRadius (m_config r)) intensity magn"

text \<open>
  Bisection, step by step: the sample at a ray parameter, the midpoint of a bracket, whether
  the sample at the midpoint is within \<open>0.0001\<close> of the iso-value, the bracket that one
  iteration continues with, and the bracket after \<open>k\<close> iterations.
\<close>

definition bisect_sample :: "Renderer \<Rightarrow> Ray \<Rightarrow> real \<Rightarrow> real" where
  "bisect_sample r ray t =
     getVoxelInterpolate (m_pVolume r) (vadd (origin ray) (smul t (direction ray)))"

definition bisect_mid :: "real \<times> real \<Rightarrow> real" where
  "bisect_mid b = (fst b + snd b) / 2"

definition bisect_close :: "Renderer \<Rightarrow> Ray \<Rightarrow> real \<Rightarrow> real \<times> real \<Rightarrow> bool" where
  "bisect_close r ray isoVal b \<longleftrightarrow> \<bar>bisect_sample r ray (bisect_mid b) - isoVal\<bar> < 0.0001"

definition bisect_narrow :: "Renderer \<Rightarrow> Ray \<Rightarrow> real \<Rightarrow> real \<times> real \<Rightarrow> real \<times> real" where
  "bisect_narrow r ray isoVal b =
     (if bisect_sample r ray (bisect_mid b) < isoVal then (bisect_mid b, snd b)
      else (fst b, bisect_mid b))"

primrec bisect_bracket :: "Renderer \<Rightarrow> Ray \<Rightarrow> real \<Rightarrow> nat \<Rightarrow> real \<times> real \<Rightarrow> real \<times> real" where
  "bisect_bracket r ray isoVal 0 b = b"
| "bisect_bracket r ray isoVal (Suc k) b =
     bisect_bracket r ray isoVal k (bisect_narrow r ray isoVal b)"

definition ray_diag :: Ray where
  "ray_diag = \<lparr> origin = Vec3 0 0 0, direction = Vec3 1 1 1, tmin = 0, tmax = 1 \<rparr>"

text \<open>
  The backward scan of the specification, which the source does not have. It follows the
  specification's words: maximum-intensity projection stepping backward from \<open>tmax\<close> to
  \<open>tmin\<close> in the same increments, with the same running maximum and the same normalisation
  as \<open>traceRayMIP\<close>.
\<close>

partial_function (option) traceRayMIP_backward_loop ::
  "Renderer \<Rightarrow> Ray \<Rightarrow> real \<Rightarrow> vec3 \<Rightarrow> real \<Rightarrow> vec3 \<Rightarrow> real \<Rightarrow> real option" where
  "traceRayMIP_backward_loop r ray sampleStep increment t samplePos maxVal =
     (if t \<ge> tmin ray
      then
        let val = getVoxelInterpolate (m_pVolume r) samplePos
        in traceRayMIP_backward_loop r ray sampleStep increment (t - sampleStep)
             (vsub samplePos increment) (max val maxVal)
      else Some maxVal)"

declare traceRayMIP_backward_loop.simps [code]

definition traceRayMIP_backward :: "Renderer \<Rightarrow> Ray \<Rightarrow> real \<Rightarrow> vec4 option" where
  "traceRayMIP_backward r ray sampleStep =
     (let samplePos = vadd (origin ray) (smul (tmax ray) (direction ray));
          increment = smul sampleStep (direction ray)
      in case traceRayMIP_backward_loop r ray sampleStep increment (tmax ray) samplePos 0 of
           None \<Rightarrow> None
         | Some maxVal \<Rightarrow>
             Some (Vec4 (maxVal / maximum (m_pVolume r)) (maxVal / maximum (m_pVolume r))
                     (maxVal / maximum (m_pVolume r)) 1))"

text \<open>A volume of one row, a renderer for it and the rays along that row.\<close>

definition vol411 :: Volume where
  "vol411 = \<lparr> m_dim = IVec3 4 1 1, m_data = [0, 0, 100, 0], m_maximum = 100,
      interpolationMode = NearestNeighbour, Volume_a = - 1 / 2 \<rparr>"

definition renderer_mip :: Renderer where
  "renderer_mip = \<lparr> m_pVolume = vol411, m_pGradientVolume = gradient0, m_pCamera = camera0,
      m_config = config0 \<rparr>"

definition ray_x :: "real \<Rightarrow> Ray" where
  "ray_x t1 = \<lparr> origin = Vec3 0 0 0, direction = Vec3 1 0 0, tmin = 0, tmax = t1 \<rparr>"


text \<open>The sample that the forward scan takes at its step \<open>j\<close>.\<close>

definition mip_sample :: "Renderer \<Rightarrow> Ray \<Rightarrow> real \<Rightarrow> nat \<Rightarrow> real" where
  "mip_sample r ray sampleStep j =
     getVoxelInterpolate (m_pVolume r)
       (vadd (vadd (origin ray) (smul (tmin ray) (direction ray)))
          (smul (real j) (smul sampleStep (direction ray))))"

text \<open>
  Values in \<open>[0, 1]\<close>: a scalar, the components of a colour, the RGB components of a pixel,
  and a 1D transfer function whose table is not empty and holds such colours only.
\<close>

definition unit_interval :: "real \<Rightarrow> bool" where
  "unit_interval a \<longleftrightarrow> 0 \<le> a \<and> a \<le> 1"

definition unit_rgb :: "vec3 \<Rightarrow> bool" where
  "unit_rgb c \<longleftrightarrow> unit_interval (vx c) \<and> unit_interval (vy c) \<and> unit_interval (vz c)"

definition unit_color :: "vec4 \<Rightarrow> bool" where
  "unit_color c \<longleftrightarrow>
     unit_interval (cr c) \<and> unit_interval (cg c) \<and> unit_interval (cb c) \<and> unit_interval (cw c)"

definition rgb_in_unit :: "vec4 \<Rightarrow> bool" where
  "rgb_in_unit c \<longleftrightarrow> unit_rgb (vec3_of_vec4 c)"

definition tf_colors_unit :: "Renderer \<Rightarrow> bool" where
  "tf_colors_unit r \<longleftrightarrow>
     tfColorMap (m_config r) \<noteq> [] \<and> list_all unit_color (tfColorMap (m_config r))"

text \<open>The number of iterations that a backward loop from \<open>t\<close> down to \<open>lo\<close> still makes.\<close>

definition steps_left :: "real \<Rightarrow> real \<Rightarrow> real \<Rightarrow> nat" where
  "steps_left t lo sampleStep = (if t < lo then 0 else nat \<lfloor>(t - lo) / sampleStep\<rfloor> + 1)"

text \<open>The sample renderer with shading enabled, and a ray of a single sample.\<close>

definition renderer_shaded :: Renderer where
  "renderer_shaded = renderer0\<lparr> m_config := config0\<lparr> volumeShading := True \<rparr> \<rparr>"

definition ray_point :: Ray where
  "ray_point = \<lparr> origin = Vec3 0 0 0, direction = Vec3 1 0 0, tmin = 0, tmax = 0 \<rparr>"





section \<open>Raw voxel access\<close>

lemma size_t_of_int_nonneg: "0 \<le> i \<Longrightarrow> i < 2 ^ 64 \<Longrightarrow> size_t_of_int i = nat i"
  by (simp add: size_t_of_int_def)

lemma size_t_of_int_neg:
  assumes "i < 0" "- (2 ^ 31) \<le> i"
  shows "size_t_of_int i \<ge> 2 ^ 63"
proof -
  have "(i + 2 ^ 64) mod 2 ^ 64 = i + 2 ^ 64"
    using assms by (intro mod_pos_pos_trivial) simp_all
  hence "i mod 2 ^ 64 = i + 2 ^ 64" by simp
  hence "i mod 2 ^ 64 \<ge> 2 ^ 63" using assms by simp
  thus ?thesis by (simp add: size_t_of_int_def le_nat_iff)
qed

lemma linear_index_in_bounds:
  assumes "coord_in_bounds v x y z"
  shows "0 \<le> linear_index v x y z"
    and "linear_index v x y z < ix (m_dim v) * iy (m_dim v) * iz (m_dim v)"
proof -
  let ?dx = "ix (m_dim v)" and ?dy = "iy (m_dim v)" and ?dz = "iz (m_dim v)"
  from assms have b: "0 \<le> x" "x < ?dx" "0 \<le> y" "y < ?dy" "0 \<le> z" "z < ?dz"
    by (simp_all add: coord_in_bounds_def)
  have yz0: "0 \<le> y + ?dy * z" using b by simp
  show "0 \<le> linear_index v x y z"
    unfolding linear_index_def using b yz0 by simp
  have "?dy * z \<le> ?dy * (?dz - 1)" using b by (intro mult_left_mono) simp_all
  hence "y + ?dy * z \<le> ?dy * ?dz - 1" using b by (simp add: algebra_simps)
  hence "?dx * (y + ?dy * z) \<le> ?dx * (?dy * ?dz - 1)" using b by (intro mult_left_mono) simp_all
  thus "linear_index v x y z < ?dx * ?dy * ?dz"
    unfolding linear_index_def using b by (simp add: algebra_simps)
qed

text \<open>
  Claim C1, as stated, fails: \<open>getVoxel\<close> checks the linear index only. On a volume of
  dimensions \<open>(2,2,1)\<close> the coordinate \<open>(2,0,0)\<close> is outside \<open>[0,2)\<close> on the x axis, and
  the call returns the scalar stored at \<open>(0,1,0)\<close>.
\<close>

theorem getVoxel_out_of_axis_nonzero:
  "\<not> ((2::int) < ix (m_dim vol221)) \<and> getVoxel vol221 2 0 0 = 3"
  by (simp add: getVoxel_def vol221_def size_t_of_int_def)

text \<open>
  Claim C1, amended: \<open>getVoxel\<close> returns \<open>0\<close> when the row-major linear index of the
  coordinate is negative or at least the number of stored scalars, and the scalar stored at
  that linear index otherwise; for an in-bounds coordinate of a dense volume that is the
  scalar stored at the coordinate.
\<close>

theorem getVoxel_linear:
  assumes "length (m_data v) < 2 ^ 63" and "in_int_range (linear_index v x y z)"
  shows "(linear_index v x y z < 0 \<or> int (length (m_data v)) \<le> linear_index v x y z
            \<longrightarrow> getVoxel v x y z = 0)
       \<and> (0 \<le> linear_index v x y z \<and> linear_index v x y z < int (length (m_data v))
            \<longrightarrow> getVoxel v x y z = real (unat (m_data v ! nat (linear_index v x y z))))
       \<and> (dense v \<and> coord_in_bounds v x y z
            \<longrightarrow> getVoxel v x y z = real (unat (m_data v ! nat (linear_index v x y z))))"
proof -
  let ?i = "linear_index v x y z"
  have gv: "getVoxel v x y z =
      (if size_t_of_int ?i \<ge> length (m_data v) then 0 else real (unat (m_data v ! size_t_of_int ?i)))"
    by (simp add: getVoxel_def linear_index_def Let_def)
  have neg: "getVoxel v x y z = 0" if "?i < 0"
  proof -
    have "size_t_of_int ?i \<ge> 2 ^ 63"
      using that assms(2) by (intro size_t_of_int_neg) (simp_all add: in_int_range_def)
    thus ?thesis using assms(1) by (simp add: gv)
  qed
  have pos: "size_t_of_int ?i = nat ?i" if "0 \<le> ?i"
    using that assms(2) by (intro size_t_of_int_nonneg) (simp_all add: in_int_range_def)
  have big: "getVoxel v x y z = 0" if "int (length (m_data v)) \<le> ?i"
  proof -
    have "0 \<le> ?i" using that by linarith
    moreover have "length (m_data v) \<le> nat ?i" using that by linarith
    ultimately show ?thesis by (simp only: gv pos if_True)
  qed
  have inr: "getVoxel v x y z = real (unat (m_data v ! nat ?i))"
    if "0 \<le> ?i" "?i < int (length (m_data v))"
  proof -
    have "\<not> length (m_data v) \<le> nat ?i" using that by linarith
    thus ?thesis using that(1) by (simp only: gv pos if_False)
  qed
  have den: "getVoxel v x y z = real (unat (m_data v ! nat ?i))"
    if "dense v" "coord_in_bounds v x y z"
    using linear_index_in_bounds[OF that(2)] that(1) by (intro inr) (simp_all add: dense_def)
  show ?thesis using neg big inr den by blast
qed

theorem getVoxel_linear_witness:
  "getVoxel vol222 1 1 1 = real (unat (m_data vol222 ! nat (linear_index vol222 1 1 1)))
   \<and> getVoxel vol222 1 1 1 = 100 \<and> getVoxel vol222 (-1) 0 0 = 0"
proof -
  have a: "length (m_data vol222) < 2 ^ 63" by (simp add: vol222_def)
  have b: "in_int_range (linear_index vol222 1 1 1)"
    by (simp add: in_int_range_def linear_index_def vol222_def)
  have b': "in_int_range (linear_index vol222 (-1) 0 0)"
    by (simp add: in_int_range_def linear_index_def vol222_def)
  have c: "dense vol222 \<and> coord_in_bounds vol222 1 1 1"
    by (simp add: dense_def coord_in_bounds_def vol222_def)
  have d: "linear_index vol222 (-1) 0 0 < 0" by (simp add: linear_index_def vol222_def)
  have e: "real (unat (m_data vol222 ! nat (linear_index vol222 1 1 1))) = 100"
    by (simp add: linear_index_def vol222_def)
  show ?thesis
    using getVoxel_linear[OF a b] getVoxel_linear[OF a b'] c d e by simp
qed

section \<open>Sampling outside the volume\<close>

text \<open>
  Claim C2, as stated, fails for the nearest-neighbour sampler: its check is on the
  coordinate shifted by \<open>0.5\<close>, so the position \<open>(-0.25, 0, 0)\<close>, which is outside
  \<open>[0, dim)\<close>, is rounded to the voxel \<open>(0,0,0)\<close> and its scalar is returned.
\<close>

theorem getVoxelNN_outside_nonzero:
  "coord_outside vol111 (Vec3 (- 1 / 4) 0 0) \<and> getVoxelNN vol111 (Vec3 (- 1 / 4) 0 0) = 100"
  by (simp add: coord_outside_def getVoxelNN_def getVoxel_def vol111_def size_t_of_int_def
      any_lessThan_def any_greaterThanEqual_def vec3_of_ivec3_def vec3_add_scalar_def
      roundToPositiveInt_def int_of_float_def)

lemma outside_sub1:
  assumes "coord_outside v c"
  shows "any_lessThan c (Vec3 0 0 0)
         \<or> any_greaterThanEqual c (vec3_of_ivec3 (ivec3_sub_scalar (m_dim v) 1))"
  using assms
  by (auto simp: coord_outside_def any_lessThan_def any_greaterThanEqual_def vec3_of_ivec3_def
      ivec3_sub_scalar_def)

text \<open>
  Claim C2, amended: for every position with a component outside \<open>[0, dim)\<close> the trilinear
  and the tricubic sampler return \<open>0\<close>; the nearest-neighbour sampler returns \<open>0\<close> for every
  position that has a component outside \<open>[0, dim)\<close> after the shift by \<open>0.5\<close>.
\<close>

theorem samplers_outside_zero:
  "(coord_outside v c \<longrightarrow>
       getVoxelLinearInterpolate v c = 0 \<and> getVoxelTriCubicInterpolate v c = 0)
   \<and> (coord_outside_shifted v c \<longrightarrow> getVoxelNN v c = 0)"
proof -
  have lin: "getVoxelLinearInterpolate v c = 0" if "coord_outside v c"
    using outside_sub1[OF that] by (simp add: getVoxelLinearInterpolate_def)
  have cub: "getVoxelTriCubicInterpolate v c = 0" if "coord_outside v c"
    using outside_sub1[OF that] by (simp add: getVoxelTriCubicInterpolate_def)
  have nn: "getVoxelNN v c = 0" if "coord_outside_shifted v c"
  proof -
    have "any_lessThan (vec3_add_scalar c 0.5) (Vec3 0 0 0)
         \<or> any_greaterThanEqual (vec3_add_scalar c 0.5) (vec3_of_ivec3 (m_dim v))"
      using that
      by (auto simp: coord_outside_shifted_def coord_outside_def any_lessThan_def
          any_greaterThanEqual_def vec3_of_ivec3_def)
    thus ?thesis by (simp add: getVoxelNN_def)
  qed
  show ?thesis using lin cub nn by blast
qed

theorem samplers_outside_zero_witness:
  "getVoxelLinearInterpolate vol222 (Vec3 2 0 0) = 0
   \<and> getVoxelTriCubicInterpolate vol222 (Vec3 2 0 0) = 0
   \<and> getVoxelNN vol222 (Vec3 (3 / 2) 1 1) = 0"
proof -
  have a: "coord_outside vol222 (Vec3 2 0 0)" by (simp add: coord_outside_def vol222_def)
  have b: "coord_outside_shifted vol222 (Vec3 (3 / 2) 1 1)"
    by (simp add: coord_outside_shifted_def coord_outside_def vol222_def vec3_add_scalar_def)
  show ?thesis
    using samplers_outside_zero[of vol222 "Vec3 2 0 0"]
      samplers_outside_zero[of vol222 "Vec3 (3 / 2) 1 1"] a b by simp
qed

section \<open>Interpolation at grid points\<close>

lemma int_of_float_of_int [simp]: "int_of_float (of_int x) = x"
  by (simp add: int_of_float_def)

lemma int_of_float_of_int_add [simp]: "int_of_float (of_int x + of_int i) = x + i"
proof -
  have "int_of_float (of_int (x + i)) = x + i" by (rule int_of_float_of_int)
  thus ?thesis by simp
qed

lemma roundToPositiveInt_of_int: "0 \<le> x \<Longrightarrow> roundToPositiveInt (of_int x) = x"
  by (simp add: roundToPositiveInt_def int_of_float_def)

lemma weight_0: "weight a 0 = 1" by (simp add: weight_def)
lemma weight_1: "weight a 1 = 0" by (simp add: weight_def)
lemma weight_2: "weight a 2 = 0" by (simp add: weight_def)

lemma cubicInterpolate_0: "cubicInterpolate a g0 g1 g2 g3 0 = g1"
  by (simp add: cubicInterpolate_def weight_0 weight_1 weight_2)

lemma linearInterpolate_0: "linearInterpolate g0 g1 0 = g0"
  by (simp add: linearInterpolate_def)

lemma getVoxel_nonneg: "0 \<le> getVoxel v x y z"
proof -
  have *: "0 \<le> (if b then 0 else real n)" for b n by simp
  show ?thesis unfolding getVoxel_def Let_def by (rule *)
qed

lemma bicubic_grid: "bicubicInterpolateXY v (Vec2 (of_int x) (of_int y)) z = getVoxel v x y z"
proof -
  show ?thesis
    by (simp add: bicubicInterpolateXY_def Let_def cubicInterpolate_0)
qed

text \<open>
  Claim C3, as stated, fails: the trilinear and the tricubic sampler return \<open>0\<close> for every
  position with a component at or above \<open>dim - 1\<close>. On the \<open>(2,2,2)\<close> volume of the scenario
  the coordinate \<open>(1,1,1)\<close> is in bounds and holds \<open>100\<close>, and both samplers return \<open>0\<close> there.
\<close>

theorem interpolation_at_last_grid_point_zero:
  "coord_in_bounds vol222 1 1 1 \<and> getVoxel vol222 1 1 1 = 100
   \<and> getVoxelLinearInterpolate vol222 (grid_point 1 1 1) = 0
   \<and> getVoxelTriCubicInterpolate vol222 (grid_point 1 1 1) = 0"
  by (simp add: coord_in_bounds_def getVoxel_def getVoxelLinearInterpolate_def
      getVoxelTriCubicInterpolate_def grid_point_def vol222_def size_t_of_int_def
      any_lessThan_def any_greaterThanEqual_def vec3_of_ivec3_def ivec3_sub_scalar_def)

text \<open>
  Claim C3, amended: at every integer coordinate inside \<open>[0, dim - 1)\<close> on every axis the
  trilinear and the tricubic sampler return the raw voxel of that coordinate, and at every
  in-bounds integer coordinate the nearest-neighbour sampler does.
\<close>

theorem interpolation_identity:
  "(coord_in_cell_range v x y z \<longrightarrow>
      getVoxelLinearInterpolate v (grid_point x y z) = getVoxel v x y z
      \<and> getVoxelTriCubicInterpolate v (grid_point x y z) = getVoxel v x y z)
   \<and> (coord_in_bounds v x y z \<longrightarrow> getVoxelNN v (grid_point x y z) = getVoxel v x y z)"
proof -
  have guard: "\<not> (any_lessThan (grid_point x y z) (Vec3 0 0 0)
         \<or> any_greaterThanEqual (grid_point x y z) (vec3_of_ivec3 (ivec3_sub_scalar (m_dim v) 1)))"
    if "coord_in_cell_range v x y z"
    using that
    by (simp add: coord_in_cell_range_def any_lessThan_def any_greaterThanEqual_def
        vec3_of_ivec3_def ivec3_sub_scalar_def grid_point_def)
  have lin: "getVoxelLinearInterpolate v (grid_point x y z) = getVoxel v x y z"
    if "coord_in_cell_range v x y z"
    using guard[OF that]
    by (simp add: getVoxelLinearInterpolate_def Let_def linearInterpolate_0 grid_point_def)
  have cub: "getVoxelTriCubicInterpolate v (grid_point x y z) = getVoxel v x y z"
    if "coord_in_cell_range v x y z"
  proof -
    have "getVoxelTriCubicInterpolate v (grid_point x y z)
        = (let value = getVoxel v x y z in if value < 0 then 0 else value)"
      using guard[OF that]
      by (simp add: getVoxelTriCubicInterpolate_def Let_def cubicInterpolate_0 grid_point_def
          bicubic_grid)
    thus ?thesis using getVoxel_nonneg[of v x y z] by (simp add: Let_def)
  qed
  have nn: "getVoxelNN v (grid_point x y z) = getVoxel v x y z" if "coord_in_bounds v x y z"
  proof -
    from that have b: "0 \<le> x" "x < ix (m_dim v)" "0 \<le> y" "y < iy (m_dim v)" "0 \<le> z"
      "z < iz (m_dim v)" by (simp_all add: coord_in_bounds_def)
    have "\<not> (any_lessThan (vec3_add_scalar (grid_point x y z) 0.5) (Vec3 0 0 0)
         \<or> any_greaterThanEqual (vec3_add_scalar (grid_point x y z) 0.5) (vec3_of_ivec3 (m_dim v)))"
      using b
      by (simp add: any_lessThan_def any_greaterThanEqual_def vec3_of_ivec3_def
          vec3_add_scalar_def grid_point_def)
    thus ?thesis using b
      by (simp add: getVoxelNN_def grid_point_def roundToPositiveInt_of_int)
  qed
  show ?thesis using lin cub nn by blast
qed

theorem interpolation_identity_witness:
  "getVoxelLinearInterpolate vol222 (grid_point 0 0 0) = getVoxel vol222 0 0 0
   \<and> getVoxelTriCubicInterpolate vol222 (grid_point 0 0 0) = getVoxel vol222 0 0 0
   \<and> getVoxelNN vol222 (grid_point 1 1 1) = 100"
proof -
  have a: "coord_in_cell_range vol222 0 0 0"
    by (simp add: coord_in_cell_range_def vol222_def)
  have b: "coord_in_bounds vol222 1 1 1"
    by (simp add: coord_in_bounds_def vol222_def)
  have c: "getVoxel vol222 1 1 1 = 100"
    by (simp add: getVoxel_def vol222_def size_t_of_int_def)
  show ?thesis
    using interpolation_identity[of vol222 0 0 0] interpolation_identity[of vol222 1 1 1] a b c
    by simp
qed

section \<open>Ray-box intersection\<close>














section \<open>2D transfer functions\<close>

lemma inTriangle_tent:
  assumes "inTriangle (c - rad) c (c + rad) i m"
  shows "0 < m" and "0 < rad" and "\<bar>c - i\<bar> < rad * (m / 255)"
proof -
  from assms have b: "c - rad < i" "i < c + rad" "0 < m"
    by (auto simp: inTriangle_def split: if_splits)
  show "0 < m" by fact
  show rad: "0 < rad" using b by linarith
  consider "i = c" | "i < c" | "c < i" by linarith
  thus "\<bar>c - i\<bar> < rad * (m / 255)"
  proof cases
    case 1
    thus ?thesis using rad b by simp
  next
    case 2
    with assms have "m > 255 * ((c - i) / rad)"
      by (auto simp: inTriangle_def split: if_splits)
    hence "(c - i) * 255 < m * rad" using rad by (simp add: field_simps)
    thus ?thesis using 2 by (simp add: field_simps)
  next
    case 3
    with assms have "m > 255 * ((i - c) / rad)"
      by (auto simp: inTriangle_def split: if_splits)
    hence "(i - c) * 255 < m * rad" using rad by (simp add: field_simps)
    thus ?thesis using 3 by (simp add: field_simps)
  qed
qed

lemma linearOpacity_inside:
  assumes "inTriangle (c - rad) c (c + rad) i m"
  shows "0 < linearOpacity c rad i m" and "linearOpacity c rad i m \<le> 1"
proof -
  note t = inTriangle_tent[OF assms]
  have w: "0 < rad * (m / 255)" using t by simp
  have "\<bar>c - i\<bar> / (rad * (m / 255)) < 1" using t(3) w by (simp add: divide_less_eq)
  thus "0 < linearOpacity c rad i m" by (simp add: linearOpacity_def Let_def)
  have "0 \<le> \<bar>c - i\<bar> / (rad * (m / 255))" using w by (intro divide_nonneg_pos) simp_all
  thus "linearOpacity c rad i m \<le> 1" by (simp add: linearOpacity_def Let_def)
qed

text \<open>
  Claim C10: \<open>getTF2DOpacity\<close> is in \<open>[0, 1]\<close>. It is \<open>0\<close> for a sample that is not inside
  the triangle; for a sample inside, the magnitude is positive and the distance to the
  centre is below \<open>radius * magnitude / 255\<close>, so the divisor of \<open>linearOpacity\<close> is not zero
  and the opacity is in \<open>(0, 1]\<close>.
\<close>

theorem getTF2DOpacity_range:
  "0 \<le> getTF2DOpacity r i m \<and> getTF2DOpacity r i m \<le> 1
   \<and> (\<not> in_classifier r i m \<longrightarrow> getTF2DOpacity r i m = 0)
   \<and> (in_classifier r i m \<longrightarrow>
        0 < m
        \<and> \<bar>TF2DIntensity (m_config r) - i\<bar> < TF2DRadius (m_config r) * (m / 255)
        \<and> TF2DRadius (m_config r) * (m / 255) \<noteq> 0
        \<and> 0 < getTF2DOpacity r i m \<and> getTF2DOpacity r i m \<le> 1)"
proof (cases "in_classifier r i m")
  case True
  hence tri: "inTriangle (TF2DIntensity (m_config r) - TF2DRadius (m_config r))
       (TF2DIntensity (m_config r))
       (TF2DIntensity (m_config r) + TF2DRadius (m_config r)) i m"
    by (simp add: in_classifier_def)
  have eq: "getTF2DOpacity r i m
      = linearOpacity (TF2DIntensity (m_config r)) (TF2DRadius (m_config r)) i m"
    using tri by (simp add: getTF2DOpacity_def)
  note t = inTriangle_tent[OF tri] and l = linearOpacity_inside[OF tri]
  have "TF2DRadius (m_config r) * (m / 255) \<noteq> 0" using t by simp
  thus ?thesis using True t l by (simp add: eq)
next
  case False
  hence "getTF2DOpacity r i m = 0" by (simp add: getTF2DOpacity_def in_classifier_def)
  thus ?thesis using False by simp
qed

theorem getTF2DOpacity_range_witness:
  "in_classifier renderer0 120 255 \<and> 0 < getTF2DOpacity renderer0 120 255
   \<and> getTF2DOpacity renderer0 120 255 \<le> 1
   \<and> \<not> in_classifier renderer0 100 0 \<and> getTF2DOpacity renderer0 100 0 = 0"
proof -
  have a: "in_classifier renderer0 120 255"
    by (simp add: in_classifier_def inTriangle_def renderer0_def config0_def)
  have b: "\<not> in_classifier renderer0 100 0"
    by (simp add: in_classifier_def inTriangle_def renderer0_def config0_def)
  show ?thesis
    using getTF2DOpacity_range[of renderer0 120 255] getTF2DOpacity_range[of renderer0 100 0] a b
    by simp
qed

text \<open>
  Claim C8: for every sample inside both triangles of variant 2, \<open>getTF2DV2Opacity\<close> is
  the tent opacity of classifier 0 and \<open>getTF2DV2Color\<close> is the colour of classifier 0. The
  third branch is never taken: both functions equal their first two branches.
\<close>

theorem tf2dv2_classifier_0_wins:
  "(in_classifier_0 r i m \<and> in_classifier_1 r i m \<longrightarrow>
      getTF2DV2Opacity r i m = opacity_0 r i m
      \<and> getTF2DV2Color r i m = TF2DV2Color_0 (m_config r))
   \<and> getTF2DV2Opacity r i m =
       (if in_classifier_0 r i m then opacity_0 r i m
        else if in_classifier_1 r i m then opacity_1 r i m else 0)
   \<and> getTF2DV2Color r i m =
       (if in_classifier_0 r i m then TF2DV2Color_0 (m_config r)
        else if in_classifier_1 r i m then TF2DV2Color_1 (m_config r) else Vec4 0 0 0 0)"
  by (simp add: getTF2DV2Opacity_def getTF2DV2Color_def in_classifier_0_def in_classifier_1_def
      opacity_0_def opacity_1_def Let_def)

theorem tf2dv2_classifier_0_wins_witness:
  "in_classifier_0 renderer0 108 255 \<and> in_classifier_1 renderer0 108 255
   \<and> opacity_0 renderer0 108 255 = 21 / 25 \<and> opacity_1 renderer0 108 255 = 24 / 25
   \<and> getTF2DV2Opacity renderer0 108 255 = 21 / 25
   \<and> getTF2DV2Color renderer0 108 255 = Vec4 1 0 0 1"
proof -
  have a: "in_classifier_0 renderer0 108 255" "in_classifier_1 renderer0 108 255"
    by (simp_all add: in_classifier_0_def in_classifier_1_def inTriangle_def renderer0_def
        config0_def)
  have b: "opacity_0 renderer0 108 255 = 21 / 25" "opacity_1 renderer0 108 255 = 24 / 25"
    by (simp_all add: opacity_0_def opacity_1_def linearOpacity_def renderer0_def config0_def)
  have c: "TF2DV2Color_0 (m_config renderer0) = Vec4 1 0 0 1"
    by (simp add: renderer0_def config0_def)
  show ?thesis
    using tf2dv2_classifier_0_wins[of renderer0 108 255] a b c by simp
qed

section \<open>Bisection\<close>

lemma bisection_loop_step:
  "bisectionAccuracy_loop r ray isoVal (int (Suc n)) t0 t1 tm =
     (if bisect_close r ray isoVal (t0, t1) then bisect_mid (t0, t1)
      else bisectionAccuracy_loop r ray isoVal (int n)
             (fst (bisect_narrow r ray isoVal (t0, t1))) (snd (bisect_narrow r ray isoVal (t0, t1)))
             (bisect_mid (t0, t1)))"
proof -
  have pred: "int (Suc n) - 1 = int n" by simp
  show ?thesis
    by (subst bisectionAccuracy_loop.simps)
      (simp add: pred Let_def bisect_close_def bisect_mid_def bisect_narrow_def bisect_sample_def
        del: bisectionAccuracy_loop.simps of_nat_Suc)
qed

lemma bisection_loop_zero: "bisectionAccuracy_loop r ray isoVal 0 t0 t1 tm = tm"
  by (subst bisectionAccuracy_loop.simps) (simp del: bisectionAccuracy_loop.simps)

lemma bisection_loop_characterised:
  "\<exists>k\<le>n. bisectionAccuracy_loop r ray isoVal (int (Suc n)) (fst b) (snd b) tm
            = bisect_mid (bisect_bracket r ray isoVal k b)
        \<and> (\<forall>j<k. \<not> bisect_close r ray isoVal (bisect_bracket r ray isoVal j b))
        \<and> (bisect_close r ray isoVal (bisect_bracket r ray isoVal k b) \<or> k = n)"
proof (induction n arbitrary: b tm)
  case 0
  have "bisectionAccuracy_loop r ray isoVal (int (Suc 0)) (fst b) (snd b) tm = bisect_mid b"
    by (subst bisection_loop_step) (simp add: bisection_loop_zero del: of_nat_Suc)
  thus ?case by simp
next
  case (Suc n)
  show ?case
  proof (cases "bisect_close r ray isoVal b")
    case True
    hence "bisectionAccuracy_loop r ray isoVal (int (Suc (Suc n))) (fst b) (snd b) tm
        = bisect_mid b"
      by (subst bisection_loop_step) simp
    thus ?thesis using True by (intro exI[of _ 0]) simp
  next
    case False
    let ?b' = "bisect_narrow r ray isoVal b"
    have step: "bisectionAccuracy_loop r ray isoVal (int (Suc (Suc n))) (fst b) (snd b) tm
        = bisectionAccuracy_loop r ray isoVal (int (Suc n)) (fst ?b') (snd ?b') (bisect_mid b)"
      using False by (subst bisection_loop_step) simp
    from Suc.IH[of ?b' "bisect_mid b"] obtain k where k: "k \<le> n"
      "bisectionAccuracy_loop r ray isoVal (int (Suc n)) (fst ?b') (snd ?b') (bisect_mid b)
         = bisect_mid (bisect_bracket r ray isoVal k ?b')"
      "\<forall>j<k. \<not> bisect_close r ray isoVal (bisect_bracket r ray isoVal j ?b')"
      "bisect_close r ray isoVal (bisect_bracket r ray isoVal k ?b') \<or> k = n"
      by blast
    have all: "\<not> bisect_close r ray isoVal (bisect_bracket r ray isoVal j b)" if "j < Suc k" for j
    proof (cases j)
      case 0
      thus ?thesis using False by simp
    next
      case (Suc j')
      thus ?thesis using k(3) that by simp
    qed
    show ?thesis
      using k(1,2,4) all step by (intro exI[of _ "Suc k"]) simp
  qed
qed

text \<open>
  Claim C9: \<open>bisectionAccuracy\<close> is a total function (its loop is defined with a
  termination proof). It returns the midpoint of the bracket of some iteration \<open>k < 500\<close>:
  no earlier midpoint was within \<open>0.0001\<close> of the iso-value, and either this one is, or it
  is the midpoint of the 500th iteration.
\<close>

theorem bisectionAccuracy_terminates:
  "\<exists>k<500. bisectionAccuracy r ray t0 t1 isoVal
              = bisect_mid (bisect_bracket r ray isoVal k (t0, t1))
        \<and> (\<forall>j<k. \<not> bisect_close r ray isoVal (bisect_bracket r ray isoVal j (t0, t1)))
        \<and> (bisect_close r ray isoVal (bisect_bracket r ray isoVal k (t0, t1)) \<or> k = 499)"
proof -
  have n: "(500 :: int) = int (Suc 499)" by simp
  from bisection_loop_characterised[of 499 r ray isoVal "(t0, t1)" "(t0 + t1) / 2"]
  obtain k where "k \<le> 499"
    "bisectionAccuracy_loop r ray isoVal (int (Suc 499)) t0 t1 ((t0 + t1) / 2)
       = bisect_mid (bisect_bracket r ray isoVal k (t0, t1))"
    "\<forall>j<k. \<not> bisect_close r ray isoVal (bisect_bracket r ray isoVal j (t0, t1))"
    "bisect_close r ray isoVal (bisect_bracket r ray isoVal k (t0, t1)) \<or> k = 499"
    by auto
  thus ?thesis
    unfolding bisectionAccuracy_def n by (intro exI[of _ k]) simp
qed

lemma sample_diag_half: "bisect_sample renderer0 ray_diag (1 / 2) = 25 / 2"
  by (simp add: bisect_sample_def renderer0_def ray_diag_def vol222_def getVoxelInterpolate_def
      getVoxelLinearInterpolate_def any_lessThan_def any_greaterThanEqual_def vec3_of_ivec3_def
      ivec3_sub_scalar_def vadd_def smul_def int_of_float_def getVoxel_def size_t_of_int_def
      linearInterpolate_def)

lemma sample_diag_three_quarters: "bisect_sample renderer0 ray_diag (3 / 4) = 675 / 16"
  by (simp add: bisect_sample_def renderer0_def ray_diag_def vol222_def getVoxelInterpolate_def
      getVoxelLinearInterpolate_def any_lessThan_def any_greaterThanEqual_def vec3_of_ivec3_def
      ivec3_sub_scalar_def vadd_def smul_def int_of_float_def getVoxel_def size_t_of_int_def
      linearInterpolate_def)

theorem bisectionAccuracy_terminates_witness:
  "bisectionAccuracy renderer0 ray_diag 0 1 (675 / 16) = 3 / 4"
proof -
  let ?br = "bisect_bracket renderer0 ray_diag (675 / 16)"
  let ?cl = "bisect_close renderer0 ray_diag (675 / 16)"
  have b0: "\<not> ?cl (0, 1)"
    by (simp add: bisect_close_def bisect_mid_def sample_diag_half)
  have n0: "bisect_narrow renderer0 ray_diag (675 / 16) (0, 1) = (1 / 2, 1)"
    by (simp add: bisect_narrow_def bisect_mid_def sample_diag_half)
  have b1: "?cl (1 / 2, 1)"
    by (simp add: bisect_close_def bisect_mid_def sample_diag_three_quarters)
  from bisectionAccuracy_terminates[of renderer0 ray_diag 0 1 "675 / 16"]
  obtain k where k: "k < 500"
    "bisectionAccuracy renderer0 ray_diag 0 1 (675 / 16) = bisect_mid (?br k (0, 1))"
    "\<forall>j<k. \<not> ?cl (?br j (0, 1))" "?cl (?br k (0, 1)) \<or> k = 499"
    by blast
  have br1: "?br (Suc 0) (0, 1) = (1 / 2, 1)" by (simp add: n0)
  have "\<not> 1 < k"
  proof
    assume "1 < k"
    hence "\<not> ?cl (?br (Suc 0) (0, 1))" using k(3)[rule_format, of "Suc 0"] by simp
    thus False using b1 br1 by simp
  qed
  moreover have "k \<noteq> 0"
  proof
    assume "k = 0"
    thus False using k(4) b0 by simp
  qed
  ultimately have "k = Suc 0" by linarith
  thus ?thesis using k(2) br1 by (simp add: bisect_mid_def)
qed

section \<open>Maximum-intensity projection\<close>

lemma nn_samples:
  "getVoxelInterpolate vol411 (Vec3 0 0 0) = 0"
  "getVoxelInterpolate vol411 (Vec3 1 0 0) = 0"
  "getVoxelInterpolate vol411 (Vec3 (1 / 2) 0 0) = 0"
  "getVoxelInterpolate vol411 (Vec3 (3 / 2) 0 0) = 100"
  "getVoxelInterpolate vol411 (Vec3 2 0 0) = 100"
  by (simp_all add: getVoxelInterpolate_def getVoxelNN_def vol411_def any_lessThan_def
      any_greaterThanEqual_def vec3_add_scalar_def vec3_of_ivec3_def roundToPositiveInt_def
      int_of_float_def getVoxel_def size_t_of_int_def)

lemma mip_forward_at: "traceRayMIP renderer_mip (ray_x (3 / 2)) 1 = Some (Vec4 0 0 0 1)"
  by (simp add: traceRayMIP_def traceRayMIP_loop.simps renderer_mip_def ray_x_def vadd_def smul_def
      nn_samples maximum_def)

lemma mip_backward_at:
  "traceRayMIP_backward renderer_mip (ray_x (3 / 2)) 1 = Some (Vec4 1 1 1 1)"
  by (simp add: traceRayMIP_backward_def traceRayMIP_backward_loop.simps renderer_mip_def ray_x_def
      vadd_def vsub_def smul_def nn_samples maximum_def) (simp add: vol411_def)

text \<open>
  Claim C7, as stated for every ray and step, fails: when \<open>tmax - tmin\<close> is not a multiple
  of the step, the two scans sample different positions. With \<open>tmin = 0\<close>, \<open>tmax = 1.5\<close> and
  step \<open>1\<close> the forward scan samples at \<open>0\<close> and \<open>1\<close>, the backward scan at \<open>1.5\<close> and \<open>0.5\<close>,
  and only the latter reaches the voxel that holds the maximum.
\<close>

theorem mip_direction_differs:
  "tmin (ray_x (3 / 2)) \<le> tmax (ray_x (3 / 2))
   \<and> traceRayMIP renderer_mip (ray_x (3 / 2)) 1 = Some (Vec4 0 0 0 1)
   \<and> traceRayMIP_backward renderer_mip (ray_x (3 / 2)) 1 = Some (Vec4 1 1 1 1)"
  by (simp add: mip_forward_at mip_backward_at) (simp add: ray_x_def)

lemma vadd_step: "vadd (vadd p (smul (real i) v)) v = vadd p (smul (real (Suc i)) v)"
  by (simp add: vadd_def smul_def algebra_simps)

lemma vsub_step: "vsub (vsub q (smul (real i) v)) v = vsub q (smul (real (Suc i)) v)"
  by (simp add: vsub_def smul_def algebra_simps)

lemma max_fold_rev: "fold max (rev xs) (m :: real) = fold max xs m"
proof -
  have "fold max (rev xs) = fold (max :: real \<Rightarrow> real \<Rightarrow> real) xs"
    by (rule fold_rev) (auto simp: fun_eq_iff max.left_commute)
  thus ?thesis by simp
qed

lemma rev_upt_Suc: "rev [0..<Suc n] = map (\<lambda>j. n - j) [0..<Suc n]"
  by (rule nth_equalityI) (simp_all add: rev_nth del: upt_Suc)

lemma mip_forward_loop:
  assumes "0 < sampleStep" and "tmax ray = tmin ray + real n * sampleStep" and "i \<le> Suc n"
  shows "traceRayMIP_loop r ray sampleStep (smul sampleStep (direction ray))
           (tmin ray + real i * sampleStep)
           (vadd (vadd (origin ray) (smul (tmin ray) (direction ray)))
              (smul (real i) (smul sampleStep (direction ray)))) m
         = Some (fold max (map (mip_sample r ray sampleStep) [i..<Suc n]) m)"
  using assms(3)
proof (induction "Suc n - i" arbitrary: i m)
  case 0
  hence i: "i = Suc n" by simp
  have "\<not> tmin ray + real (Suc n) * sampleStep \<le> tmax ray"
    using assms(1,2) by (simp add: algebra_simps)
  thus ?case unfolding i by (subst traceRayMIP_loop.simps) (simp del: upt_Suc of_nat_Suc)
next
  case (Suc k)
  hence i: "i \<le> n" "k = Suc n - Suc i" "Suc i \<le> Suc n" by simp_all
  have "real i * sampleStep \<le> real n * sampleStep"
    using i(1) assms(1) by (intro mult_right_mono) simp_all
  hence le: "tmin ray + real i * sampleStep \<le> tmax ray" using assms(2) by simp
  have t: "tmin ray + real i * sampleStep + sampleStep = tmin ray + real (Suc i) * sampleStep"
    by (simp add: algebra_simps)
  have l: "[i..<Suc n] = i # [Suc i..<Suc n]" using i(1) by (simp add: upt_conv_Cons del: upt_Suc)
  show ?case
    by (subst traceRayMIP_loop.simps)
      (simp only: le if_True Let_def t vadd_step Suc.hyps(1)[OF i(2) i(3)] l list.map fold_simps
        mip_sample_def)
qed

lemma mip_backward_loop:
  assumes "0 < sampleStep" and "tmax ray = tmin ray + real n * sampleStep" and "i \<le> Suc n"
  shows "traceRayMIP_backward_loop r ray sampleStep (smul sampleStep (direction ray))
           (tmax ray - real i * sampleStep)
           (vsub (vadd (origin ray) (smul (tmax ray) (direction ray)))
              (smul (real i) (smul sampleStep (direction ray)))) m
         = Some (fold max (map (\<lambda>j. mip_sample r ray sampleStep (n - j)) [i..<Suc n]) m)"
  using assms(3)
proof (induction "Suc n - i" arbitrary: i m)
  case 0
  hence i: "i = Suc n" by simp
  have "\<not> tmax ray - real (Suc n) * sampleStep \<ge> tmin ray"
    using assms(1,2) by (simp add: algebra_simps)
  thus ?case unfolding i by (subst traceRayMIP_backward_loop.simps) (simp del: upt_Suc of_nat_Suc)
next
  case (Suc k)
  hence i: "i \<le> n" "k = Suc n - Suc i" "Suc i \<le> Suc n" by simp_all
  have "real i * sampleStep \<le> real n * sampleStep"
    using i(1) assms(1) by (intro mult_right_mono) simp_all
  hence le: "tmax ray - real i * sampleStep \<ge> tmin ray" using assms(2) by simp
  have t: "tmax ray - real i * sampleStep - sampleStep = tmax ray - real (Suc i) * sampleStep"
    by (simp add: algebra_simps)
  have l: "[i..<Suc n] = i # [Suc i..<Suc n]" using i(1) by (simp add: upt_conv_Cons del: upt_Suc)
  have "real (n - i) = real n - real i" using i(1) by (simp add: of_nat_diff)
  hence pos: "vsub (vadd (origin ray) (smul (tmax ray) (direction ray)))
              (smul (real i) (smul sampleStep (direction ray)))
        = vadd (vadd (origin ray) (smul (tmin ray) (direction ray)))
              (smul (real (n - i)) (smul sampleStep (direction ray)))"
    using assms(2) by (simp add: vsub_def vadd_def smul_def algebra_simps)
  have s: "getVoxelInterpolate (m_pVolume r)
             (vsub (vadd (origin ray) (smul (tmax ray) (direction ray)))
                (smul (real i) (smul sampleStep (direction ray))))
           = mip_sample r ray sampleStep (n - i)"
    by (simp only: pos mip_sample_def)
  show ?case
    by (subst traceRayMIP_backward_loop.simps)
      (simp only: le if_True Let_def t vsub_step Suc.hyps(1)[OF i(2) i(3)] l list.map fold_simps s)
qed

text \<open>
  Claim C7, amended: for a positive step and a ray whose interval \<open>tmax - tmin\<close> is a whole
  number of steps, the forward scan returns, and the backward scan returns the same colour.
\<close>

theorem mip_direction_invariant:
  assumes "0 < sampleStep" and "tmax ray = tmin ray + real n * sampleStep"
  shows "traceRayMIP r ray sampleStep = traceRayMIP_backward r ray sampleStep
       \<and> traceRayMIP r ray sampleStep \<noteq> None"
proof -
  let ?f = "mip_sample r ray sampleStep"
  have f: "traceRayMIP_loop r ray sampleStep (smul sampleStep (direction ray)) (tmin ray)
             (vadd (origin ray) (smul (tmin ray) (direction ray))) 0
           = Some (fold max (map ?f [0..<Suc n]) 0)"
    using mip_forward_loop[OF assms, of 0 r 0] by (simp add: vadd_def smul_def del: upt_Suc)
  have b: "traceRayMIP_backward_loop r ray sampleStep (smul sampleStep (direction ray)) (tmax ray)
             (vadd (origin ray) (smul (tmax ray) (direction ray))) 0
           = Some (fold max (map (\<lambda>j. ?f (n - j)) [0..<Suc n]) 0)"
    using mip_backward_loop[OF assms, of 0 r 0] by (simp add: vsub_def vadd_def smul_def del: upt_Suc)
  have "map (\<lambda>j. ?f (n - j)) [0..<Suc n] = rev (map ?f [0..<Suc n])"
    unfolding rev_map rev_upt_Suc by (simp add: comp_def del: upt_Suc)
  hence eq: "fold max (map (\<lambda>j. ?f (n - j)) [0..<Suc n]) 0 = fold max (map ?f [0..<Suc n]) 0"
    by (simp only: max_fold_rev)
  show ?thesis
    unfolding traceRayMIP_def traceRayMIP_backward_def Let_def f b eq by simp
qed

theorem mip_direction_invariant_witness:
  "traceRayMIP renderer_mip (ray_x 2) 1 = traceRayMIP_backward renderer_mip (ray_x 2) 1
   \<and> traceRayMIP renderer_mip (ray_x 2) 1 = Some (Vec4 1 1 1 1)"
proof -
  have a: "(0 :: real) < 1" by simp
  have b: "tmax (ray_x 2) = tmin (ray_x 2) + real 2 * 1" by (simp add: ray_x_def)
  have c: "traceRayMIP renderer_mip (ray_x 2) 1 = Some (Vec4 1 1 1 1)"
    by (simp add: traceRayMIP_def traceRayMIP_loop.simps renderer_mip_def ray_x_def vadd_def
        smul_def nn_samples maximum_def) (simp add: vol411_def)
  show ?thesis using mip_direction_invariant[OF a b, of renderer_mip] c by simp
qed

section \<open>Compositing\<close>

lemma steps_left_decreases:
  assumes "0 < sampleStep" and "lo \<le> t"
  shows "steps_left (t - sampleStep) lo sampleStep < steps_left t lo sampleStep"
proof (cases "t - sampleStep < lo")
  case True
  thus ?thesis using assms by (simp add: steps_left_def)
next
  case False
  hence ge: "sampleStep \<le> t - lo" by simp
  have "(t - sampleStep - lo) / sampleStep = (t - lo) / sampleStep - 1"
    using assms(1) by (simp add: field_simps)
  hence fl: "\<lfloor>(t - sampleStep - lo) / sampleStep\<rfloor> = \<lfloor>(t - lo) / sampleStep\<rfloor> - 1" by simp
  have "1 \<le> (t - lo) / sampleStep" using ge assms(1) by (simp add: le_divide_eq)
  hence "1 \<le> \<lfloor>(t - lo) / sampleStep\<rfloor>" by linarith
  thus ?thesis using False assms(2) by (simp add: steps_left_def fl)
qed

lemma blend_unit:
  assumes "unit_rgb c" "unit_rgb acc" "unit_interval a"
  shows "unit_rgb (vadd (smul a c) (smul (1 - a) acc))"
proof -
  have one: "0 \<le> a * x + (1 - a) * y \<and> a * x + (1 - a) * y \<le> 1"
    if "0 \<le> x" "x \<le> 1" "0 \<le> y" "y \<le> 1" for x y :: real
  proof -
    from assms(3) have a: "0 \<le> a" "a \<le> 1" by (simp_all add: unit_interval_def)
    have "a * x \<le> a * 1" using that a by (intro mult_left_mono) simp_all
    moreover have "(1 - a) * y \<le> (1 - a) * 1" using that a by (intro mult_left_mono) simp_all
    moreover have "0 \<le> a * x" "0 \<le> (1 - a) * y" using that a by simp_all
    ultimately show ?thesis by simp
  qed
  from assms(1,2) show ?thesis
    by (simp add: unit_rgb_def unit_interval_def vadd_def smul_def one)
qed

lemma getTFValue_unit:
  assumes "tf_colors_unit r"
  shows "unit_color (getTFValue r v)"
proof -
  let ?m = "tfColorMap (m_config r)"
  from assms have ne: "?m \<noteq> []" and all: "list_all unit_color ?m"
    by (simp_all add: tf_colors_unit_def)
  have "(int (length ?m) - 1) mod 2 ^ 64 \<le> int (length ?m) - 1"
    using ne by (intro zmod_le_nonneg_dividend) (simp add: Suc_leI)
  hence "size_t_of_int (int (length ?m) - 1) < length ?m"
    using ne by (simp add: size_t_of_int_def)
  hence "min k (size_t_of_int (int (length ?m) - 1)) < length ?m" for k by simp
  hence "?m ! min k (size_t_of_int (int (length ?m) - 1)) \<in> set ?m" for k
    by (intro nth_mem)
  thus ?thesis using all by (simp add: getTFValue_def Let_def list_all_iff)
qed

lemma unit_color_rgb: "unit_color c \<Longrightarrow> unit_rgb (vec3_of_vec4 c)"
  by (simp add: unit_color_def unit_rgb_def vec3_of_vec4_def)

lemma composite_loop_returns:
  assumes "0 < sampleStep"
  shows "\<exists>c. backToFrontComposite_loop r ray sampleStep increment t samplePos color = Some c
           \<and> (tf_colors_unit r \<and> \<not> volumeShading (m_config r) \<and> unit_rgb color \<longrightarrow> unit_rgb c)"
proof (induction "steps_left t (tmin ray) sampleStep" arbitrary: t samplePos color
    rule: less_induct)
  case less
  show ?case
  proof (cases "t \<ge> tmin ray")
    case False
    thus ?thesis by (subst backToFrontComposite_loop.simps) simp
  next
    case True
    let ?tf = "getTFValue r (getVoxelInterpolate (m_pVolume r) samplePos)"
    let ?cur = "if volumeShading (m_config r)
               then computePhongShading (vec3_of_vec4 ?tf) (m_pGradientVolume r samplePos)
                      (position (m_pCamera r)) (direction ray)
               else vec3_of_vec4 ?tf"
    let ?col = "vadd (smul (cw ?tf) ?cur) (smul (1 - cw ?tf) color)"
    have step: "backToFrontComposite_loop r ray sampleStep increment t samplePos color
        = backToFrontComposite_loop r ray sampleStep increment (t - sampleStep)
            (vsub samplePos increment) ?col"
      using True by (subst backToFrontComposite_loop.simps) (simp add: Let_def)
    from less[OF steps_left_decreases[OF assms True], of "vsub samplePos increment" ?col]
    obtain c where c: "backToFrontComposite_loop r ray sampleStep increment (t - sampleStep)
            (vsub samplePos increment) ?col = Some c"
      "tf_colors_unit r \<and> \<not> volumeShading (m_config r) \<and> unit_rgb ?col \<longrightarrow> unit_rgb c"
      by blast
    have "unit_rgb ?col" if h: "tf_colors_unit r" "\<not> volumeShading (m_config r)" "unit_rgb color"
    proof -
      have u: "unit_color ?tf" by (rule getTFValue_unit[OF h(1)])
      hence "unit_interval (cw ?tf)" by (simp add: unit_color_def)
      thus ?thesis using h(2,3) unit_color_rgb[OF u] by (simp add: blend_unit)
    qed
    thus ?thesis using c step by auto
  qed
qed

lemma unit_interval_mult: "unit_interval a \<Longrightarrow> unit_interval b \<Longrightarrow> unit_interval (a * b)"
  by (simp add: unit_interval_def mult_le_one)

lemma getTF2DOpacity_unit: "unit_interval (getTF2DOpacity r i m)"
  using linearOpacity_inside[of "TF2DIntensity (m_config r)" "TF2DRadius (m_config r)" i m]
  by (auto simp: getTF2DOpacity_def unit_interval_def)

lemma getTF2DV2Opacity_unit: "unit_interval (getTF2DV2Opacity r i m)"
  using linearOpacity_inside[of "TF2DV2Intensity_0 (m_config r)" "TF2DV2Radius_0 (m_config r)" i m]
    linearOpacity_inside[of "TF2DV2Intensity_1 (m_config r)" "TF2DV2Radius_1 (m_config r)" i m]
  by (auto simp: getTF2DV2Opacity_def unit_interval_def Let_def)

lemma getTF2DV2Color_unit:
  assumes "unit_color (TF2DV2Color_0 (m_config r))" "unit_color (TF2DV2Color_1 (m_config r))"
  shows "unit_color (getTF2DV2Color r i m)"
proof -
  have "unit_color (Vec4 0 0 0 0)" by (simp add: unit_color_def unit_interval_def)
  thus ?thesis using assms by (simp add: getTF2DV2Color_def Let_def)
qed

lemma tf2d_loop_returns:
  assumes "0 < sampleStep"
  shows "\<exists>c. traceRayTF2D_loop r ray sampleStep increment t samplePos color = Some c
           \<and> (unit_color (TF2DColor (m_config r)) \<and> \<not> volumeShading (m_config r)
                \<and> unit_rgb color \<longrightarrow> unit_rgb c)"
proof (induction "steps_left t (tmin ray) sampleStep" arbitrary: t samplePos color
    rule: less_induct)
  case less
  show ?case
  proof (cases "t \<ge> tmin ray")
    case False
    thus ?thesis by (subst traceRayTF2D_loop.simps) simp
  next
    case True
    let ?g = "m_pGradientVolume r samplePos"
    let ?op = "getTF2DOpacity r (getVoxelInterpolate (m_pVolume r) samplePos) (magnitude ?g)
                 * cw (TF2DColor (m_config r))"
    let ?cur = "if volumeShading (m_config r)
               then computePhongShading (vec3_of_vec4 (TF2DColor (m_config r))) ?g
                      (position (m_pCamera r)) (direction ray)
               else vec3_of_vec4 (TF2DColor (m_config r))"
    let ?col = "vadd (smul ?op ?cur) (smul (1 - ?op) color)"
    have step: "traceRayTF2D_loop r ray sampleStep increment t samplePos color
        = traceRayTF2D_loop r ray sampleStep increment (t - sampleStep)
            (vsub samplePos increment) ?col"
      using True by (subst traceRayTF2D_loop.simps) (simp add: Let_def)
    from less[OF steps_left_decreases[OF assms True], of "vsub samplePos increment" ?col]
    obtain c where c: "traceRayTF2D_loop r ray sampleStep increment (t - sampleStep)
            (vsub samplePos increment) ?col = Some c"
      "unit_color (TF2DColor (m_config r)) \<and> \<not> volumeShading (m_config r) \<and> unit_rgb ?col
         \<longrightarrow> unit_rgb c"
      by blast
    have "unit_rgb ?col"
      if h: "unit_color (TF2DColor (m_config r))" "\<not> volumeShading (m_config r)" "unit_rgb color"
    proof -
      have "unit_interval (cw (TF2DColor (m_config r)))" using h(1) by (simp add: unit_color_def)
      hence "unit_interval ?op" by (intro unit_interval_mult getTF2DOpacity_unit)
      thus ?thesis using h(2,3) unit_color_rgb[OF h(1)] by (simp add: blend_unit)
    qed
    thus ?thesis using c step by auto
  qed
qed

lemma tf2dv2_loop_returns:
  assumes "0 < sampleStep"
  shows "\<exists>c. traceRayTF2DV2_loop r ray sampleStep increment t samplePos color = Some c
           \<and> (unit_color (TF2DV2Color_0 (m_config r)) \<and> unit_color (TF2DV2Color_1 (m_config r))
                \<and> unit_rgb color \<longrightarrow> unit_rgb c)"
proof (induction "steps_left t (tmin ray) sampleStep" arbitrary: t samplePos color
    rule: less_induct)
  case less
  show ?case
  proof (cases "t \<ge> tmin ray")
    case False
    thus ?thesis by (subst traceRayTF2DV2_loop.simps) simp
  next
    case True
    let ?i = "getVoxelInterpolate (m_pVolume r) samplePos"
    let ?g = "m_pGradientVolume r samplePos"
    let ?c' = "getTF2DV2Color r ?i (magnitude ?g)"
    let ?op = "getTF2DV2Opacity r ?i (magnitude ?g) * cw ?c'"
    let ?col = "vadd (smul ?op (vec3_of_vec4 ?c')) (smul (1 - ?op) color)"
    have step: "traceRayTF2DV2_loop r ray sampleStep increment t samplePos color
        = traceRayTF2DV2_loop r ray sampleStep increment (t - sampleStep)
            (vsub samplePos increment) ?col"
      using True by (subst traceRayTF2DV2_loop.simps) (simp add: Let_def)
    from less[OF steps_left_decreases[OF assms True], of "vsub samplePos increment" ?col]
    obtain c where c: "traceRayTF2DV2_loop r ray sampleStep increment (t - sampleStep)
            (vsub samplePos increment) ?col = Some c"
      "unit_color (TF2DV2Color_0 (m_config r)) \<and> unit_color (TF2DV2Color_1 (m_config r))
         \<and> unit_rgb ?col \<longrightarrow> unit_rgb c"
      by blast
    have "unit_rgb ?col"
      if h: "unit_color (TF2DV2Color_0 (m_config r))" "unit_color (TF2DV2Color_1 (m_config r))"
        "unit_rgb color"
    proof -
      have u: "unit_color ?c'" by (rule getTF2DV2Color_unit[OF h(1,2)])
      hence "unit_interval (cw ?c')" by (simp add: unit_color_def)
      hence "unit_interval ?op" by (intro unit_interval_mult getTF2DV2Opacity_unit)
      thus ?thesis using h(3) unit_color_rgb[OF u] by (simp add: blend_unit)
    qed
    thus ?thesis using c step by auto
  qed
qed

lemma unit_rgb_zero: "unit_rgb (Vec3 0 0 0)"
  by (simp add: unit_rgb_def unit_interval_def)

lemma vec4_of_vec3_props:
  "cw (vec4_of_vec3 c 1) = 1" "rgb_in_unit (vec4_of_vec3 c 1) = unit_rgb c"
  by (simp_all add: vec4_of_vec3_def rgb_in_unit_def vec3_of_vec4_def)

text \<open>
  Claim C6, amended: for a positive sample step each of the three compositing algorithms
  returns a colour whose alpha is exactly \<open>1\<close>. Its RGB components are in \<open>[0, 1]\<close> when
  the transfer-function colours used (with their alpha) are in \<open>[0, 1]\<close> and, for the 1D
  variant and variant 1 of the 2D one, volume shading is disabled; variant 2 never shades.
\<close>

theorem compositing_alpha_and_range:
  assumes "0 < sampleStep"
  shows "(\<exists>c. backToFrontComposite r ray sampleStep = Some c \<and> cw c = 1
            \<and> (tf_colors_unit r \<and> \<not> volumeShading (m_config r) \<longrightarrow> rgb_in_unit c))
       \<and> (\<exists>c. traceRayTF2D r ray sampleStep = Some c \<and> cw c = 1
            \<and> (unit_color (TF2DColor (m_config r)) \<and> \<not> volumeShading (m_config r)
                 \<longrightarrow> rgb_in_unit c))
       \<and> (\<exists>c. traceRayTF2DV2 r ray sampleStep = Some c \<and> cw c = 1
            \<and> (unit_color (TF2DV2Color_0 (m_config r)) \<and> unit_color (TF2DV2Color_1 (m_config r))
                 \<longrightarrow> rgb_in_unit c))"
proof (intro conjI)
  let ?inc = "smul sampleStep (direction ray)"
  let ?pos = "vadd (origin ray) (smul (tmax ray) (direction ray))"
  from composite_loop_returns[OF assms, of r ray ?inc "tmax ray" ?pos "Vec3 0 0 0"]
  obtain c where "backToFrontComposite_loop r ray sampleStep ?inc (tmax ray) ?pos (Vec3 0 0 0)
        = Some c"
    "tf_colors_unit r \<and> \<not> volumeShading (m_config r) \<longrightarrow> unit_rgb c"
    using unit_rgb_zero by auto
  thus "\<exists>c. backToFrontComposite r ray sampleStep = Some c \<and> cw c = 1
            \<and> (tf_colors_unit r \<and> \<not> volumeShading (m_config r) \<longrightarrow> rgb_in_unit c)"
    by (simp add: backToFrontComposite_def Let_def vec4_of_vec3_props)
  from tf2d_loop_returns[OF assms, of r ray ?inc "tmax ray" ?pos "Vec3 0 0 0"]
  obtain c where "traceRayTF2D_loop r ray sampleStep ?inc (tmax ray) ?pos (Vec3 0 0 0) = Some c"
    "unit_color (TF2DColor (m_config r)) \<and> \<not> volumeShading (m_config r) \<longrightarrow> unit_rgb c"
    using unit_rgb_zero by auto
  thus "\<exists>c. traceRayTF2D r ray sampleStep = Some c \<and> cw c = 1
            \<and> (unit_color (TF2DColor (m_config r)) \<and> \<not> volumeShading (m_config r)
                 \<longrightarrow> rgb_in_unit c)"
    by (simp add: traceRayTF2D_def Let_def vec4_of_vec3_props)
  from tf2dv2_loop_returns[OF assms, of r ray ?inc "tmax ray" ?pos "Vec3 0 0 0"]
  obtain c where "traceRayTF2DV2_loop r ray sampleStep ?inc (tmax ray) ?pos (Vec3 0 0 0) = Some c"
    "unit_color (TF2DV2Color_0 (m_config r)) \<and> unit_color (TF2DV2Color_1 (m_config r))
       \<longrightarrow> unit_rgb c"
    using unit_rgb_zero by auto
  thus "\<exists>c. traceRayTF2DV2 r ray sampleStep = Some c \<and> cw c = 1
            \<and> (unit_color (TF2DV2Color_0 (m_config r)) \<and> unit_color (TF2DV2Color_1 (m_config r))
                 \<longrightarrow> rgb_in_unit c)"
    by (simp add: traceRayTF2DV2_def Let_def vec4_of_vec3_props)
qed

theorem compositing_alpha_and_range_witness:
  "tf_colors_unit renderer0 \<and> \<not> volumeShading (m_config renderer0)
   \<and> unit_color (TF2DColor (m_config renderer0))
   \<and> unit_color (TF2DV2Color_0 (m_config renderer0))
   \<and> unit_color (TF2DV2Color_1 (m_config renderer0))
   \<and> (\<exists>c. backToFrontComposite renderer0 ray_diag 1 = Some c \<and> cw c = 1 \<and> rgb_in_unit c)
   \<and> (\<exists>c. traceRayTF2D renderer0 ray_diag 1 = Some c \<and> cw c = 1 \<and> rgb_in_unit c)
   \<and> (\<exists>c. traceRayTF2DV2 renderer0 ray_diag 1 = Some c \<and> cw c = 1 \<and> rgb_in_unit c)"
proof -
  have a: "(0 :: real) < 1" by simp
  have b: "tf_colors_unit renderer0" "\<not> volumeShading (m_config renderer0)"
    "unit_color (TF2DColor (m_config renderer0))"
    "unit_color (TF2DV2Color_0 (m_config renderer0))"
    "unit_color (TF2DV2Color_1 (m_config renderer0))"
    by (simp_all add: tf_colors_unit_def renderer0_def config0_def unit_color_def unit_interval_def)
  show ?thesis
    using compositing_alpha_and_range[OF a, of renderer0 ray_diag] b by simp
qed

lemma phong_factor_negative:
  "vx (computePhongShading (Vec3 1 1 1) \<lparr> dir = Vec3 1 0 0, magnitude = 1 \<rparr> (Vec3 1 0 0)
         (Vec3 1 0 0)) < 0"
proof -
  define theta :: real where "theta = arccos (- (10000 / 10001))"
  define phi :: real where "phi = arccos (10000 / 10001) - theta"
  have c: "cos theta = - (10000 / 10001)" unfolding theta_def by (rule cos_arccos) simp_all
  have "\<bar>cos phi\<bar> ^ 100 \<le> 1" by (intro power_le_one) simp_all
  hence p: "cos phi ^ 100 \<le> 1" by (simp add: power_even_abs)
  have "computePhongShading (Vec3 1 1 1) \<lparr> dir = Vec3 1 0 0, magnitude = 1 \<rparr> (Vec3 1 0 0)
         (Vec3 1 0 0)
      = smul (0.1 + 0.7 * cos theta + 0.2 * cos phi ^ 100) (Vec3 1 1 1)"
    by (simp add: computePhongShading_def Let_def dot_def vneg_def vlength_def theta_def phi_def)
  moreover have "0.1 + 0.7 * cos theta + 0.2 * cos phi ^ 100 < 0"
    using p unfolding c by simp
  ultimately show ?thesis by (simp add: smul_def)
qed

text \<open>
  Claim C6, as stated, fails when volume shading is enabled: the Phong factor
  \<open>ka + kd * cos theta + ks * cos phi ^ n\<close> is negative when the gradient points away from
  the light, and the composited colour then has negative components although every
  transfer-function colour is in \<open>[0, 1]\<close>.
\<close>

theorem compositing_shaded_negative:
  "tf_colors_unit renderer_shaded \<and> tmin ray_point \<le> tmax ray_point
   \<and> backToFrontComposite renderer_shaded ray_point 1 \<noteq> None
   \<and> cr (the (backToFrontComposite renderer_shaded ray_point 1)) < 0"
proof -
  have u: "tf_colors_unit renderer_shaded"
    by (simp add: tf_colors_unit_def renderer_shaded_def renderer0_def config0_def unit_color_def
        unit_interval_def)
  have s: "getVoxelInterpolate vol222 (Vec3 0 0 0) = 0"
    by (simp add: getVoxelInterpolate_def getVoxelLinearInterpolate_def vol222_def any_lessThan_def
        any_greaterThanEqual_def vec3_of_ivec3_def ivec3_sub_scalar_def int_of_float_def
        getVoxel_def size_t_of_int_def linearInterpolate_def)
  have tf: "getTFValue renderer_shaded 0 = Vec4 1 1 1 1"
    by (simp add: getTFValue_def renderer_shaded_def renderer0_def config0_def size_t_of_float_def
        size_t_of_int_def int_of_float_def)
  let ?ph = "computePhongShading (Vec3 1 1 1) \<lparr> dir = Vec3 1 0 0, magnitude = 1 \<rparr> (Vec3 1 0 0)
         (Vec3 1 0 0)"
  have env: "m_pVolume renderer_shaded = vol222" "volumeShading (m_config renderer_shaded)"
    "m_pGradientVolume renderer_shaded (Vec3 0 0 0) = \<lparr> dir = Vec3 1 0 0, magnitude = 1 \<rparr>"
    "position (m_pCamera renderer_shaded) = Vec3 1 0 0"
    by (simp_all add: renderer_shaded_def renderer0_def config0_def gradient0_def camera0_def)
  have r: "tmin ray_point = 0" "tmax ray_point = 0" "origin ray_point = Vec3 0 0 0"
    "direction ray_point = Vec3 1 0 0"
    by (simp_all add: ray_point_def)
  have "backToFrontComposite renderer_shaded ray_point 1
      = Some (vec4_of_vec3 (vadd (smul 1 ?ph) (smul 0 (Vec3 0 0 0))) 1)"
    by (simp add: backToFrontComposite_def backToFrontComposite_loop.simps r env s tf Let_def
        vadd_def smul_def vsub_def vec3_of_vec4_def)
  thus ?thesis using u phong_factor_negative
    by (simp add: r vec4_of_vec3_def vadd_def smul_def)
qed

section \<open>Sequential and parallel render pass\<close>

















end
